theory Spec2Isabelle
  imports Main
begin

text \<open>
  The front end of the repository is the script \<^verbatim>\<open>static/main.js\<close>: a Leaflet map of the
  United States on which a state is selected, its congressional districts are drawn and
  a metrics record of the state is shown, with a placeholder action that generates a
  plan. The repository holds a second, older script of the same page, which has no
  nationwide layer and no metrics cache; it is called the older script below. Line
  numbers are those of \<^verbatim>\<open>main.js\<close> unless the older script is named.
\<close>

section \<open>State codes and FIPS identifiers (main.js, lines 12-23)\<close>

text \<open>
  \<^verbatim>\<open>STATE_FIPS\<close> is an object literal used as a dictionary from postal codes to two-digit
  FIPS strings. The literal is kept as the list of its entries, in source order; a lookup
  \<^verbatim>\<open>obj[key]\<close> reads the own property of that name (the last one written, were a key
  repeated) and is \<^verbatim>\<open>undefined\<close>, here \<open>None\<close>, when there is none.
\<close>

type_synonym state_code = string
type_synonym fips = string

definition js_object :: "(string \<times> 'v) list \<Rightarrow> string \<Rightarrow> 'v option" where
  "js_object entries = map_of (rev entries)"

definition STATE_FIPS_entries :: "(state_code \<times> fips) list" where
  "STATE_FIPS_entries =
    [(''AL'', ''01''), (''AK'', ''02''), (''AZ'', ''04''), (''AR'', ''05''), (''CA'', ''06''), (''CO'', ''08''),
     (''CT'', ''09''), (''DE'', ''10''), (''FL'', ''12''), (''GA'', ''13''), (''HI'', ''15''), (''ID'', ''16''),
     (''IL'', ''17''), (''IN'', ''18''), (''IA'', ''19''), (''KS'', ''20''), (''KY'', ''21''), (''LA'', ''22''),
     (''ME'', ''23''), (''MD'', ''24''), (''MA'', ''25''), (''MI'', ''26''), (''MN'', ''27''), (''MS'', ''28''),
     (''MO'', ''29''), (''MT'', ''30''), (''NE'', ''31''), (''NV'', ''32''), (''NH'', ''33''), (''NJ'', ''34''),
     (''NM'', ''35''), (''NY'', ''36''), (''NC'', ''37''), (''ND'', ''38''), (''OH'', ''39''), (''OK'', ''40''),
     (''OR'', ''41''), (''PA'', ''42''), (''RI'', ''44''), (''SC'', ''45''), (''SD'', ''46''), (''TN'', ''47''),
     (''TX'', ''48''), (''UT'', ''49''), (''VT'', ''50''), (''VA'', ''51''), (''WA'', ''53''), (''WV'', ''54''),
     (''WI'', ''55''), (''WY'', ''56''), (''DC'', ''11''), (''PR'', ''72'')]"

definition STATE_FIPS :: "state_code \<Rightarrow> fips option" where
  "STATE_FIPS = js_object STATE_FIPS_entries"

text \<open>
  \<^verbatim>\<open>FIPS_STATE = Object.fromEntries(Object.entries(STATE_FIPS).map(([k, v]) => [v, k]))\<close>:
  the entries with key and value swapped, a later entry overwriting an earlier one that
  has the same key.
\<close>

definition FIPS_STATE :: "fips \<Rightarrow> state_code option" where
  "FIPS_STATE = js_object (map (\<lambda>(k, v). (v, k)) STATE_FIPS_entries)"

section \<open>JavaScript values\<close>

text \<open>
  The JSON primitives. Numbers are kept as integers: the program only tests them for
  zero and converts them to strings.
\<close>

datatype prim = JNull | JBool bool | JNum int | JStr string

text \<open>What \<^verbatim>\<open>resp.json()\<close> resolves to: a primitive or an object of the expected shape.\<close>

datatype 'o parsed = Prim prim | Obj 'o

fun truthy :: "prim \<Rightarrow> bool" where
  "truthy JNull = False"
| "truthy (JBool b) = b"
| "truthy (JNum n) = (n \<noteq> 0)"
| "truthy (JStr s) = (s \<noteq> [])"

text \<open>\<^verbatim>\<open>a || b\<close>, for a property read \<open>a\<close> (\<open>None\<close> when the property is absent).\<close>

definition or_else :: "prim option \<Rightarrow> prim \<Rightarrow> prim" where
  "or_else a b = (case a of None \<Rightarrow> b | Some p \<Rightarrow> if truthy p then p else b)"

definition digit :: "nat \<Rightarrow> char" where
  "digit d = ''0123456789'' ! d"

fun show_nat :: "nat \<Rightarrow> string" where
  "show_nat n = (if n < 10 then [digit n] else show_nat (n div 10) @ [digit (n mod 10)])"

declare show_nat.simps [simp del]

text \<open>
  \<^verbatim>\<open>.toString()\<close>. The program calls it on the value of \<^verbatim>\<open>x || y || ""\<close> only, which is
  never \<^verbatim>\<open>null\<close>; the equation for \<open>JNull\<close> is there for totality.
\<close>

fun toString :: "prim \<Rightarrow> string" where
  "toString (JStr s) = s"
| "toString (JNum n) = (if n < 0 then CHR ''-'' # show_nat (nat (- n)) else show_nat (nat n))"
| "toString (JBool b) = (if b then ''true'' else ''false'')"
| "toString JNull = ''null''"

text \<open>\<^verbatim>\<open>.padStart(2, "0")\<close>\<close>

definition padStart2 :: "string \<Rightarrow> string" where
  "padStart2 s = replicate (2 - length s) (CHR ''0'') @ s"

text \<open>
  Values of the program's variables that hold metrics: \<^verbatim>\<open>undefined\<close>, a primitive, or a
  reference to an object of the heap. Two references are the same object exactly when
  their addresses are equal.
\<close>

type_synonym addr = nat

datatype jsval = Undefined | Primitive prim | Ref addr

fun truthy_val :: "jsval \<Rightarrow> bool" where
  "truthy_val Undefined = False"
| "truthy_val (Primitive p) = truthy p"
| "truthy_val (Ref a) = True"

datatype exn =
    Unknown_state state_code
  | Failed_to_load_congress
  | Network_error
  | Json_error
  | TypeError
  | Bounds_not_valid

section \<open>Features and topology (main.js, lines 221-232)\<close>

text \<open>
  A feature has a property object and a geometry; of the geometry the model keeps its
  extent (south, west, north, east), \<open>None\<close> for a geometry without coordinates.
\<close>

type_synonym bounds = "int \<times> int \<times> int \<times> int"

record feature =
  properties :: "(string \<times> prim) list"
  geometry :: "bounds option"

datatype geojson = FeatureCollection (features: "feature list")

text \<open>
  The topology payload is a JSON object with an optional member \<^verbatim>\<open>objects\<close> of named
  geometry objects. \<^verbatim>\<open>topojson.feature\<close> (an external library) converts a geometry
  collection into a feature collection and any other geometry into a single feature,
  which has no \<^verbatim>\<open>features\<close> member; each object is kept with the features it converts to.
\<close>

datatype geometry_object = GeometryCollection "feature list" | Geometry feature

record topology =
  objects :: "(string \<times> geometry_object) list option"

text \<open>
  Line 222: \<^verbatim>\<open>topo.objects?.districts || topo.objects?.congress || Object.keys(topo.objects)[0]\<close>,
  and the lookup \<^verbatim>\<open>topojson.feature\<close> makes when it is handed a name.
  \<^verbatim>\<open>Object.keys(undefined)\<close> and a conversion of \<^verbatim>\<open>undefined\<close> raise a TypeError.
\<close>

definition pick_object :: "topology \<Rightarrow> exn + geometry_object" where
  "pick_object topo =
    (case objects topo of
       None \<Rightarrow> Inl TypeError
     | Some os \<Rightarrow>
        (case js_object os ''districts'' of
           Some g \<Rightarrow> Inr g
         | None \<Rightarrow>
            (case js_object os ''congress'' of
               Some g \<Rightarrow> Inr g
             | None \<Rightarrow>
                (case os of
                   [] \<Rightarrow> Inl TypeError
                 | (k, _) # _ \<Rightarrow> (case js_object os k of Some g \<Rightarrow> Inr g | None \<Rightarrow> Inl TypeError)))))"

text \<open>Line 228: the state identifier the filter derives from a feature.\<close>

definition feature_state :: "feature \<Rightarrow> string" where
  "feature_state f =
    padStart2 (toString (or_else (js_object (properties f) ''STATEFP'')
                          (or_else (js_object (properties f) ''state'') (JStr []))))"

text \<open>
  Lines 221-232 (and lines 61-75 of the older script, whose \<^verbatim>\<open>loadStateMap\<close> has the same
  body): the districts of the cached payload whose derived state identifier is \<open>fips\<close>.
  A payload that is a primitive has no usable \<^verbatim>\<open>objects\<close>: a TypeError.
\<close>

definition filter_districts :: "topology parsed \<Rightarrow> fips \<Rightarrow> exn + geojson" where
  "filter_districts topo fips =
    (case topo of
       Prim _ \<Rightarrow> Inl TypeError
     | Obj t \<Rightarrow>
        (case pick_object t of
           Inl e \<Rightarrow> Inl e
         | Inr (Geometry _) \<Rightarrow> Inl TypeError
         | Inr (GeometryCollection fs) \<Rightarrow>
             Inr (FeatureCollection (filter (\<lambda>f. feature_state f = fips) fs))))"

section \<open>The map, the sidebar and the program's variables\<close>

record style =
  weight :: nat
  opacity :: "nat option"
  color :: string
  dashArray :: "string option"
  fillOpacity :: nat
  fillColor :: string

text \<open>Lines 160-199. Opacities are in hundredths.\<close>

definition styleDistrictBase :: style where
  "styleDistrictBase =
    \<lparr>weight = 1, opacity = Some 90, color = ''#333'', dashArray = None,
     fillOpacity = 30, fillColor = ''#6699cc''\<rparr>"

definition styleDistrictMode :: "jsval \<Rightarrow> style" where
  "styleDistrictMode mode =
    (if mode = Primitive (JStr ''favor_democrats'') then
       \<lparr>weight = 2, opacity = None, color = ''#1e3a8a'', dashArray = Some ''3 3'',
        fillOpacity = 35, fillColor = ''#60a5fa''\<rparr>
     else if mode = Primitive (JStr ''favor_republicans'') then
       \<lparr>weight = 2, opacity = None, color = ''#7f1d1d'', dashArray = Some ''3 3'',
        fillOpacity = 35, fillColor = ''#f87171''\<rparr>
     else
       \<lparr>weight = 2, opacity = None, color = ''#065f46'', dashArray = Some ''2 4'',
        fillOpacity = 35, fillColor = ''#34d399''\<rparr>)"

text \<open>The older script's \<^verbatim>\<open>styleDistrict\<close> (lines 33-42).\<close>

definition styleDistrict :: style where
  "styleDistrict =
    \<lparr>weight = 1, opacity = Some 90, color = ''#333'', dashArray = None,
     fillOpacity = 30, fillColor = ''#6699cc''\<rparr>"

text \<open>
  A Leaflet layer is an object: \<open>layer_id\<close> is its identity. It holds the features it
  draws, their style and the popup bound to each of them. The viewport is the initial one
  of \<^verbatim>\<open>initMap\<close> or the result of the last successful \<^verbatim>\<open>fitBounds\<close>.
\<close>

record layer =
  layer_id :: nat
  layer_data :: "feature list"
  layer_style :: style
  layer_popups :: "string list"

datatype view = Initial_view | Fitted bounds nat

text \<open>
  Leaflet is not part of the repository; what the program needs of it is taken from the
  spec's render contract. The extent of two geometries:
\<close>

fun extend :: "bounds option \<Rightarrow> bounds option \<Rightarrow> bounds option" where
  "extend None b = b"
| "extend a None = a"
| "extend (Some (s1, w1, n1, e1)) (Some (s2, w2, n2, e2)) =
     Some (min s1 s2, min w1 w2, max n1 n2, max e1 e2)"

text \<open>
  Modelled from the spec: Leaflet's \<^verbatim>\<open>getBounds\<close>, the extent of the layer's geometries;
  the bounds are not valid (\<open>None\<close>) when the layer has no geometry, as for an empty
  collection ("if bounds computation fails (empty collection)").
\<close>

definition getBounds :: "layer \<Rightarrow> bounds option" where
  "getBounds l = foldl extend None (map geometry (layer_data l))"

text \<open>
  Modelled from the spec: Leaflet's \<^verbatim>\<open>fitBounds\<close>, which raises on bounds that are not
  valid before it touches the viewport ("the viewport is left unchanged"), and otherwise
  fits the viewport to the bounds with the padding.
\<close>

definition fitBounds :: "bounds option \<Rightarrow> nat \<Rightarrow> exn + view" where
  "fitBounds b padding = (case b of None \<Rightarrow> Inl Bounds_not_valid | Some bb \<Rightarrow> Inr (Fitted bb padding))"

text \<open>
  The metrics record. An object that the metrics endpoint sends is taken to have the
  shape of its contract, a classification string and a summary object with an array of
  notes, where every member may be absent; the program reads each of them defensively.
\<close>

record metrics_summary =
  summary_notes :: "string list option"

record metrics_record =
  classification :: "string option"
  summary :: "metrics_summary option"

text \<open>What \<^verbatim>\<open>showMetrics\<close> writes into the three sidebar nodes.\<close>

record shown =
  shown_classification :: string
  shown_background :: "string option"
  shown_summary :: metrics_summary
  shown_notes :: "string list"

datatype request = Get_congress | Get_metrics state_code

text \<open>
  The module's variables (lines 33-38), \<^verbatim>\<open>window.__US_CONGRESS_TOPO__\<close>, the overlays
  attached to the Leaflet map and its viewport, the heap of metrics objects, the sidebar,
  and the log of the requests issued with \<^verbatim>\<open>fetch\<close>. \<^verbatim>\<open>METRICS_CACHE\<close> is an object used as
  a dictionary: the model keeps its own properties, its keys being state codes, none of
  which is the name of a property that every object inherits.
\<close>

record sys =
  map_layers :: "layer list"
  viewport :: view
  geoLayer :: "layer option"
  currentGeo :: "geojson option"
  selectedState :: "state_code option"
  METRICS_CACHE :: "state_code \<Rightarrow> jsval option"
  CONGRESS_TOPO :: "topology parsed option"
  heap :: "addr \<Rightarrow> metrics_record option"
  next_ref :: nat
  sidebar :: "shown option"
  requests :: "request list"

definition initial :: sys where
  "initial =
    \<lparr>map_layers = [], viewport = Initial_view, geoLayer = None, currentGeo = None,
     selectedState = None, METRICS_CACHE = (\<lambda>_. None), CONGRESS_TOPO = None,
     heap = (\<lambda>_. None), next_ref = 0, sidebar = None, requests = []\<rparr>"

section \<open>Rendering (main.js, lines 201-210 and 235-268)\<close>

text \<open>The popup of a district: lines 201-210, and lines 44-48 of the older script.\<close>

definition onEachDistrict :: "feature \<Rightarrow> string" where
  "onEachDistrict f =
    (let p = js_object (properties f);
         dist = or_else (p ''district'') (or_else (p ''dist'') (or_else (p ''DISTRICT'')
                  (or_else (p ''CD118'') (JStr ''?''))));
         st = or_else (p ''STATEFP'') (or_else (p ''state'') (JStr []))
     in ''<strong>District:</strong> '' @ toString dist @ ''<br/><strong>STATEFP:</strong> '' @ toString st)"

definition onEachDistrict_older :: "feature \<Rightarrow> string" where
  "onEachDistrict_older f =
    (let p = js_object (properties f);
         name = or_else (p ''district'') (or_else (p ''dist'') (or_else (p ''DISTRICT'') (JStr ''?'')));
         state = or_else (p ''state'') (or_else (p ''STATEFP'') (JStr ''?''))
     in ''<strong>District:</strong> '' @ toString name @ ''<br/><strong>State:</strong> '' @ toString state)"

text \<open>
  \<^verbatim>\<open>renderDistricts\<close> (lines 235-244) and the older \<^verbatim>\<open>renderGeojson\<close> (lines 78-89) differ
  in the style, the popup and the padding only. The old layer, if any, is removed from
  the map; the new one is built, with a popup for each feature, and added; the viewport
  is fitted to its bounds, and the exception of \<^verbatim>\<open>fitBounds\<close> is caught and dropped.
\<close>

definition render_layer :: "(feature \<Rightarrow> string) \<Rightarrow> geojson \<Rightarrow> style \<Rightarrow> nat \<Rightarrow> sys \<Rightarrow> sys" where
  "render_layer popup geojson st padding s =
    (let attached = (case geoLayer s of None \<Rightarrow> map_layers s | Some old \<Rightarrow> removeAll old (map_layers s));
         new = \<lparr>layer_id = next_ref s, layer_data = features geojson, layer_style = st,
                layer_popups = map popup (features geojson)\<rparr>;
         s1 = s\<lparr>geoLayer := Some new, map_layers := attached @ [new], next_ref := Suc (next_ref s)\<rparr>
     in case fitBounds (getBounds new) padding of
          Inl _ \<Rightarrow> s1
        | Inr v \<Rightarrow> s1\<lparr>viewport := v\<rparr>)"

definition renderDistricts :: "geojson \<Rightarrow> style \<Rightarrow> sys \<Rightarrow> sys" where
  "renderDistricts geojson st s = render_layer onEachDistrict geojson st 18 s"

definition renderGeojson :: "geojson \<Rightarrow> sys \<Rightarrow> sys" where
  "renderGeojson geojson s = render_layer onEachDistrict_older geojson styleDistrict 20 s"

definition COLORS :: "string \<Rightarrow> string option" where
  "COLORS =
    js_object [(''favors_democrats'', ''#2563eb''), (''favors_republicans'', ''#dc2626''),
               (''fair'', ''#9ca3af''), (''unknown'', ''#6b7280'')]"

definition toUpperCase :: "string \<Rightarrow> string" where
  "toUpperCase =
    map (\<lambda>c. case map_of (zip ''abcdefghijklmnopqrstuvwxyz'' ''ABCDEFGHIJKLMNOPQRSTUVWXYZ'') c of
               Some u \<Rightarrow> u | None \<Rightarrow> c)"

text \<open>
  Lines 247-268, on the record read through \<^verbatim>\<open>metrics?.\<close> (\<open>None\<close> when \<^verbatim>\<open>metrics\<close> is not
  an object). \<open>background\<close> tells whether the label's background is set (the older
  script, lines 99-115, does not set it).
\<close>

definition show_record :: "bool \<Rightarrow> metrics_record option \<Rightarrow> shown" where
  "show_record background m =
    (let c = (case m of None \<Rightarrow> None | Some r \<Rightarrow> classification r);
         sm = (case m of None \<Rightarrow> None | Some r \<Rightarrow> summary r)
     in \<lparr>shown_classification =
            toUpperCase (case c of None \<Rightarrow> ''unknown'' | Some x \<Rightarrow> if x = [] then ''unknown'' else x),
         shown_background =
            (if background
             then (case c of
                     None \<Rightarrow> COLORS ''unknown''
                   | Some x \<Rightarrow> (case COLORS x of Some col \<Rightarrow> Some col | None \<Rightarrow> COLORS ''unknown''))
             else None),
         shown_summary = (case sm of None \<Rightarrow> \<lparr>summary_notes = None\<rparr> | Some x \<Rightarrow> x),
         shown_notes = (case sm of None \<Rightarrow> [] | Some x \<Rightarrow> (case summary_notes x of None \<Rightarrow> [] | Some ns \<Rightarrow> ns))\<rparr>)"

definition deref :: "sys \<Rightarrow> jsval \<Rightarrow> metrics_record option" where
  "deref s v = (case v of Ref a \<Rightarrow> heap s a | _ \<Rightarrow> None)"

definition showMetrics :: "jsval \<Rightarrow> sys \<Rightarrow> sys" where
  "showMetrics metrics s = s\<lparr>sidebar := Some (show_record True (deref s metrics))\<rparr>"

text \<open>The notes of a record, read as \<^verbatim>\<open>m?.summary?.notes || []\<close> (line 263).\<close>

definition notes_of :: "metrics_record \<Rightarrow> string list" where
  "notes_of m =
    (case summary m of None \<Rightarrow> [] | Some sm \<Rightarrow> (case summary_notes sm of None \<Rightarrow> [] | Some ns \<Rightarrow> ns))"

section \<open>Asynchronous functions\<close>

text \<open>
  An \<^verbatim>\<open>async\<close> function runs until it awaits a promise that is still pending: the one of
  a \<^verbatim>\<open>fetch\<close>, or the one of \<^verbatim>\<open>resp.json()\<close>. It is modelled by one function for each
  stretch between two such points. A stretch returns a value, raises, or suspends. An
  \<^verbatim>\<open>await\<close> of a promise that is already settled continues within the same task of the
  event loop, before any other event is handled, so it does not end a stretch.

  A response carries its \<^verbatim>\<open>ok\<close> flag and what its \<^verbatim>\<open>json()\<close> promise will settle to.
\<close>

datatype 'b json_outcome = Json_rejects | Json_resolves 'b

datatype 'b response = Response (ok: bool) (json: "'b json_outcome")

datatype 'b fetch_outcome = Fetch_rejects | Fetch_resolves "'b response"

text \<open>The successful response whose body is the given object.\<close>

definition arrives :: "'b \<Rightarrow> 'b parsed fetch_outcome" where
  "arrives body = Fetch_resolves (Response True (Json_resolves (Obj body)))"

datatype ('a, 'w) step = Done 'a | Throw exn | Suspend 'w

subsection \<open>\<^verbatim>\<open>loadMetrics\<close> (lines 50-62)\<close>

datatype metrics_wait = Metrics_fetch | Metrics_json "metrics_record parsed json_outcome"

definition cache_get :: "sys \<Rightarrow> state_code \<Rightarrow> jsval" where
  "cache_get s stateCode = (case METRICS_CACHE s stateCode of None \<Rightarrow> Undefined | Some v \<Rightarrow> v)"

definition fallback_record :: metrics_record where
  "fallback_record =
    \<lparr>classification = Some ''unknown'', summary = Some \<lparr>summary_notes = Some [''No metrics'']\<rparr>\<rparr>"

definition new_object :: "metrics_record \<Rightarrow> sys \<Rightarrow> addr \<times> sys" where
  "new_object r s =
    (next_ref s, s\<lparr>heap := (heap s)(next_ref s \<mapsto> r), next_ref := Suc (next_ref s)\<rparr>)"

text \<open>Lines 60-61.\<close>

definition store_fallback :: "state_code \<Rightarrow> sys \<Rightarrow> (jsval, metrics_wait) step \<times> sys" where
  "store_fallback stateCode s =
    (case new_object fallback_record s of
       (a, s1) \<Rightarrow> (Done (Ref a), s1\<lparr>METRICS_CACHE := (METRICS_CACHE s1)(stateCode \<mapsto> Ref a)\<rparr>))"

text \<open>Lines 51-53: the cache test, and the request.\<close>

definition loadMetrics_begin :: "state_code \<Rightarrow> sys \<Rightarrow> (jsval, metrics_wait) step \<times> sys" where
  "loadMetrics_begin stateCode s =
    (if truthy_val (cache_get s stateCode) then (Done (cache_get s stateCode), s)
     else (Suspend Metrics_fetch, s\<lparr>requests := requests s @ [Get_metrics stateCode]\<rparr>))"

text \<open>Lines 53-55 and 59-61: the \<^verbatim>\<open>fetch\<close> promise settles.\<close>

definition loadMetrics_fetched ::
  "state_code \<Rightarrow> metrics_record parsed fetch_outcome \<Rightarrow> sys \<Rightarrow> (jsval, metrics_wait) step \<times> sys" where
  "loadMetrics_fetched stateCode fo s =
    (case fo of
       Fetch_rejects \<Rightarrow> store_fallback stateCode s
     | Fetch_resolves resp \<Rightarrow>
         if ok resp then (Suspend (Metrics_json (json resp)), s) else store_fallback stateCode s)"

text \<open>Lines 55-57 and 59-61: the \<^verbatim>\<open>resp.json()\<close> promise settles.\<close>

definition loadMetrics_parsed ::
  "state_code \<Rightarrow> metrics_record parsed json_outcome \<Rightarrow> sys \<Rightarrow> (jsval, metrics_wait) step \<times> sys" where
  "loadMetrics_parsed stateCode jo s =
    (case jo of
       Json_rejects \<Rightarrow> store_fallback stateCode s
     | Json_resolves (Prim p) \<Rightarrow>
         (Done (Primitive p), s\<lparr>METRICS_CACHE := (METRICS_CACHE s)(stateCode \<mapsto> Primitive p)\<rparr>)
     | Json_resolves (Obj r) \<Rightarrow>
         (case new_object r s of
            (a, s1) \<Rightarrow> (Done (Ref a), s1\<lparr>METRICS_CACHE := (METRICS_CACHE s1)(stateCode \<mapsto> Ref a)\<rparr>)))"

subsection \<open>\<^verbatim>\<open>loadStateDistricts\<close> (lines 212-233)\<close>

datatype districts_wait =
    Districts_fetch fips
  | Districts_json fips "topology parsed json_outcome"

definition truthy_topo :: "topology parsed option \<Rightarrow> bool" where
  "truthy_topo w = (case w of None \<Rightarrow> False | Some (Prim p) \<Rightarrow> truthy p | Some (Obj _) \<Rightarrow> True)"

text \<open>Lines 221-232, on the payload that \<^verbatim>\<open>window.__US_CONGRESS_TOPO__\<close> holds.\<close>

definition districts_now :: "fips \<Rightarrow> sys \<Rightarrow> (geojson, districts_wait) step \<times> sys" where
  "districts_now fips s =
    (case CONGRESS_TOPO s of
       None \<Rightarrow> (Throw TypeError, s)
     | Some topo \<Rightarrow>
        (case filter_districts topo fips of Inl e \<Rightarrow> (Throw e, s) | Inr g \<Rightarrow> (Done g, s)))"

text \<open>Lines 213-217.\<close>

definition loadStateDistricts_begin :: "state_code \<Rightarrow> sys \<Rightarrow> (geojson, districts_wait) step \<times> sys" where
  "loadStateDistricts_begin stateCode s =
    (case STATE_FIPS stateCode of
       None \<Rightarrow> (Throw (Unknown_state stateCode), s)
     | Some fips \<Rightarrow>
         if fips = [] then (Throw (Unknown_state stateCode), s)
         else if truthy_topo (CONGRESS_TOPO s) then districts_now fips s
         else (Suspend (Districts_fetch fips), s\<lparr>requests := requests s @ [Get_congress]\<rparr>))"

text \<open>Lines 217-219: the \<^verbatim>\<open>fetch\<close> promise settles.\<close>

definition loadStateDistricts_fetched ::
  "fips \<Rightarrow> topology parsed fetch_outcome \<Rightarrow> sys \<Rightarrow> (geojson, districts_wait) step \<times> sys" where
  "loadStateDistricts_fetched fips fo s =
    (case fo of
       Fetch_rejects \<Rightarrow> (Throw Network_error, s)
     | Fetch_resolves resp \<Rightarrow>
         if ok resp then (Suspend (Districts_json fips (json resp)), s)
         else (Throw Failed_to_load_congress, s))"

text \<open>Lines 219-232: the \<^verbatim>\<open>resp.json()\<close> promise settles.\<close>

definition loadStateDistricts_parsed ::
  "fips \<Rightarrow> topology parsed json_outcome \<Rightarrow> sys \<Rightarrow> (geojson, districts_wait) step \<times> sys" where
  "loadStateDistricts_parsed fips jo s =
    (case jo of
       Json_rejects \<Rightarrow> (Throw Json_error, s)
     | Json_resolves topo \<Rightarrow> districts_now fips (s\<lparr>CONGRESS_TOPO := Some topo\<rparr>))"

subsection \<open>Tasks\<close>

text \<open>
  A call of \<^verbatim>\<open>refreshState\<close>, \<^verbatim>\<open>generatePlan\<close> or \<^verbatim>\<open>loadMetrics\<close> made by an event handler
  is a task: suspended in a callee at one of its awaits, or finished.
\<close>

datatype task =
    RefreshState_districts state_code districts_wait
  | RefreshState_metrics state_code metrics_wait
  | GeneratePlan_metrics state_code jsval metrics_wait
  | LoadMetrics_wait state_code metrics_wait
  | Returned jsval
  | Threw exn

subsection \<open>\<^verbatim>\<open>refreshState\<close> (lines 284-293)\<close>

text \<open>Line 292.\<close>

definition refreshState_metrics :: "state_code \<Rightarrow> (jsval, metrics_wait) step \<times> sys \<Rightarrow> task \<times> sys" where
  "refreshState_metrics stateCode r =
    (case r of
       (Done metrics, s) \<Rightarrow> (Returned Undefined, showMetrics metrics s)
     | (Throw e, s) \<Rightarrow> (Threw e, s)
     | (Suspend w, s) \<Rightarrow> (RefreshState_metrics stateCode w, s))"

text \<open>Lines 287-291: \<^verbatim>\<open>loadStateDistricts\<close> has come back.\<close>

definition refreshState_districts :: "state_code \<Rightarrow> (geojson, districts_wait) step \<times> sys \<Rightarrow> task \<times> sys" where
  "refreshState_districts stateCode r =
    (case r of
       (Done g, s) \<Rightarrow>
         refreshState_metrics stateCode
           (loadMetrics_begin stateCode (renderDistricts g styleDistrictBase (s\<lparr>currentGeo := Some g\<rparr>)))
     | (Throw e, s) \<Rightarrow> (Threw e, s)
     | (Suspend w, s) \<Rightarrow> (RefreshState_districts stateCode w, s))"

text \<open>Lines 285-287.\<close>

definition refreshState :: "state_code \<Rightarrow> sys \<Rightarrow> task \<times> sys" where
  "refreshState stateCode s =
    refreshState_districts stateCode (loadStateDistricts_begin stateCode (s\<lparr>selectedState := Some stateCode\<rparr>))"

subsection \<open>\<^verbatim>\<open>generatePlan\<close> (lines 295-318)\<close>

text \<open>Lines 302-313, on the record \<^verbatim>\<open>m\<close> refers to.\<close>

definition annotate :: "jsval \<Rightarrow> metrics_record \<Rightarrow> metrics_record" where
  "annotate mode m =
    (let sm = (case summary m of None \<Rightarrow> \<lparr>summary_notes = None\<rparr> | Some x \<Rightarrow> x);
         ns = (case summary_notes sm of None \<Rightarrow> [] | Some xs \<Rightarrow> xs)
     in if mode = Primitive (JStr ''fair'') then
          m\<lparr>classification := Some ''fair'',
            summary := Some (sm\<lparr>summary_notes := Some (''Generated fair plan (demo).'' # ns)\<rparr>)\<rparr>
        else if mode = Primitive (JStr ''favor_democrats'') then
          m\<lparr>classification := Some ''favors_democrats'',
            summary := Some (sm\<lparr>summary_notes := Some (''Generated plan favoring Democrats (demo).'' # ns)\<rparr>)\<rparr>
        else
          m\<lparr>classification := Some ''favors_republicans'',
            summary := Some (sm\<lparr>summary_notes := Some (''Generated plan favoring Republicans (demo).'' # ns)\<rparr>)\<rparr>)"

text \<open>
  Lines 301-317: \<^verbatim>\<open>loadMetrics\<close> has come back with \<^verbatim>\<open>m\<close>. Line 302 raises a TypeError
  when \<^verbatim>\<open>m\<close> is \<^verbatim>\<open>null\<close>; on another primitive the assignment of line 302 has no effect
  and line 303 raises it. \<^verbatim>\<open>L.geoJSON(null)\<close> is an empty layer.
\<close>

definition generatePlan_metrics ::
  "state_code \<Rightarrow> jsval \<Rightarrow> (jsval, metrics_wait) step \<times> sys \<Rightarrow> task \<times> sys" where
  "generatePlan_metrics stateCode mode r =
    (case r of
       (Done (Ref a), s) \<Rightarrow>
         (case heap s a of
            None \<Rightarrow> (Threw TypeError, s)
          | Some m \<Rightarrow>
              (Returned Undefined,
               renderDistricts (case currentGeo s of None \<Rightarrow> FeatureCollection [] | Some g \<Rightarrow> g)
                 (styleDistrictMode mode)
                 (showMetrics (Ref a) (s\<lparr>heap := (heap s)(a \<mapsto> annotate mode m)\<rparr>))))
     | (Done _, s) \<Rightarrow> (Threw TypeError, s)
     | (Throw e, s) \<Rightarrow> (Threw e, s)
     | (Suspend w, s) \<Rightarrow> (GeneratePlan_metrics stateCode mode w, s))"

text \<open>Lines 295-301.\<close>

definition generatePlan :: "state_code \<Rightarrow> jsval \<Rightarrow> sys \<Rightarrow> task \<times> sys" where
  "generatePlan stateCode mode s =
    (if currentGeo s = None then (Returned Undefined, s)
     else generatePlan_metrics stateCode mode (loadMetrics_begin stateCode s))"

subsection \<open>A direct call of \<^verbatim>\<open>loadMetrics\<close> (lines 65-67, 90, 125)\<close>

definition loadMetrics_task :: "state_code \<Rightarrow> (jsval, metrics_wait) step \<times> sys \<Rightarrow> task \<times> sys" where
  "loadMetrics_task stateCode r =
    (case r of
       (Done v, s) \<Rightarrow> (Returned v, s)
     | (Throw e, s) \<Rightarrow> (Threw e, s)
     | (Suspend w, s) \<Rightarrow> (LoadMetrics_wait stateCode w, s))"

definition loadMetrics :: "state_code \<Rightarrow> sys \<Rightarrow> task \<times> sys" where
  "loadMetrics stateCode s = loadMetrics_task stateCode (loadMetrics_begin stateCode s)"

subsection \<open>The event loop\<close>

text \<open>
  A settlement is the event that the promise a task awaits settles: the \<^verbatim>\<open>fetch\<close> of the
  topology or of the metrics, with its outcome, or the \<^verbatim>\<open>json()\<close> of the response the task
  holds. A settlement that is not the one the task awaits does not concern it.
\<close>

datatype settlement =
    Congress "topology parsed fetch_outcome"
  | Metrics "metrics_record parsed fetch_outcome"
  | Body

fun settle_districts ::
  "districts_wait \<Rightarrow> settlement \<Rightarrow> sys \<Rightarrow> ((geojson, districts_wait) step \<times> sys) option" where
  "settle_districts (Districts_fetch fips) (Congress fo) s = Some (loadStateDistricts_fetched fips fo s)"
| "settle_districts (Districts_json fips jo) Body s = Some (loadStateDistricts_parsed fips jo s)"
| "settle_districts _ _ _ = None"

fun settle_metrics ::
  "state_code \<Rightarrow> metrics_wait \<Rightarrow> settlement \<Rightarrow> sys \<Rightarrow> ((jsval, metrics_wait) step \<times> sys) option" where
  "settle_metrics stateCode Metrics_fetch (Metrics fo) s = Some (loadMetrics_fetched stateCode fo s)"
| "settle_metrics stateCode (Metrics_json jo) Body s = Some (loadMetrics_parsed stateCode jo s)"
| "settle_metrics _ _ _ _ = None"

definition resume :: "task \<Rightarrow> settlement \<Rightarrow> sys \<Rightarrow> task \<times> sys" where
  "resume t x s =
    (case t of
       RefreshState_districts stateCode w \<Rightarrow>
         (case settle_districts w x s of None \<Rightarrow> (t, s) | Some r \<Rightarrow> refreshState_districts stateCode r)
     | RefreshState_metrics stateCode w \<Rightarrow>
         (case settle_metrics stateCode w x s of None \<Rightarrow> (t, s) | Some r \<Rightarrow> refreshState_metrics stateCode r)
     | GeneratePlan_metrics stateCode mode w \<Rightarrow>
         (case settle_metrics stateCode w x s of None \<Rightarrow> (t, s) | Some r \<Rightarrow> generatePlan_metrics stateCode mode r)
     | LoadMetrics_wait stateCode w \<Rightarrow>
         (case settle_metrics stateCode w x s of None \<Rightarrow> (t, s) | Some r \<Rightarrow> loadMetrics_task stateCode r)
     | _ \<Rightarrow> (t, s))"

text \<open>
  Events: a handler calls one of the three functions, which starts a task (tasks are
  numbered from 0 in the order they start), or the promise awaited by a task settles.
\<close>

datatype event =
    Select state_code
  | Generate state_code jsval
  | Load state_code
  | Settle nat settlement

fun handle :: "event \<Rightarrow> sys \<times> task list \<Rightarrow> sys \<times> task list" where
  "handle (Select stateCode) (s, ts) = (case refreshState stateCode s of (t, s1) \<Rightarrow> (s1, ts @ [t]))"
| "handle (Generate stateCode mode) (s, ts) = (case generatePlan stateCode mode s of (t, s1) \<Rightarrow> (s1, ts @ [t]))"
| "handle (Load stateCode) (s, ts) = (case loadMetrics stateCode s of (t, s1) \<Rightarrow> (s1, ts @ [t]))"
| "handle (Settle n x) (s, ts) =
     (if n < length ts then (case resume (ts ! n) x s of (t, s1) \<Rightarrow> (s1, ts[n := t])) else (s, ts))"

definition run :: "event list \<Rightarrow> sys \<times> task list \<Rightarrow> sys \<times> task list" where
  "run evs c = foldl (\<lambda>c e. handle e c) c evs"

fun is_settlement :: "event \<Rightarrow> bool" where
  "is_settlement (Settle n x) = True"
| "is_settlement _ = False"

text \<open>
  The tasks that cannot write \<^verbatim>\<open>currentGeo\<close> or render any more: all but a \<^verbatim>\<open>refreshState\<close>
  still inside \<^verbatim>\<open>loadStateDistricts\<close> and a \<^verbatim>\<open>generatePlan\<close>.
\<close>

fun past_districts :: "task \<Rightarrow> bool" where
  "past_districts (RefreshState_districts stateCode w) = False"
| "past_districts (GeneratePlan_metrics stateCode mode w) = False"
| "past_districts _ = True"

text \<open>
  One call of \<^verbatim>\<open>loadMetrics\<close> awaited to its end with nothing else running, the metrics
  endpoint answering with \<open>fo\<close>.
\<close>

definition loadMetrics_call ::
  "state_code \<Rightarrow> metrics_record parsed fetch_outcome \<Rightarrow> sys \<Rightarrow> task \<times> sys" where
  "loadMetrics_call stateCode fo s =
    (case loadMetrics stateCode s of
       (t1, s1) \<Rightarrow> (case resume t1 (Metrics fo) s1 of (t2, s2) \<Rightarrow> resume t2 Body s2))"

text \<open>Likewise one call of \<^verbatim>\<open>generatePlan\<close>.\<close>

definition generatePlan_call ::
  "state_code \<Rightarrow> jsval \<Rightarrow> metrics_record parsed fetch_outcome \<Rightarrow> sys \<Rightarrow> task \<times> sys" where
  "generatePlan_call stateCode mode fo s =
    (case generatePlan stateCode mode s of
       (t1, s1) \<Rightarrow> (case resume t1 (Metrics fo) s1 of (t2, s2) \<Rightarrow> resume t2 Body s2))"

text \<open>
  The responses that leave a falsy value in the cache: a successful response whose JSON
  body is \<^verbatim>\<open>null\<close>, \<^verbatim>\<open>false\<close>, \<^verbatim>\<open>0\<close> or the empty string.
\<close>

fun falsy_body :: "metrics_record parsed fetch_outcome \<Rightarrow> bool" where
  "falsy_body (Fetch_resolves (Response True (Json_resolves (Prim p)))) = (\<not> truthy p)"
| "falsy_body _ = False"

section \<open>The older script's \<^verbatim>\<open>generatePlan\<close> (lines 91-138)\<close>

text \<open>
  \<^verbatim>\<open>loadDemoMetrics\<close> (lines 92-97) has no cache and no fallback: a rejected promise
  propagates, a response that is not \<^verbatim>\<open>ok\<close> gives \<^verbatim>\<open>null\<close>.
\<close>

definition loadDemoMetrics :: "metrics_record parsed fetch_outcome \<Rightarrow> exn + metrics_record parsed" where
  "loadDemoMetrics fo =
    (case fo of
       Fetch_rejects \<Rightarrow> Inl Network_error
     | Fetch_resolves resp \<Rightarrow>
         if \<not> ok resp then Inr (Prim JNull)
         else (case json resp of Json_rejects \<Rightarrow> Inl Json_error | Json_resolves v \<Rightarrow> Inr v))"

text \<open>Lines 123-133, for a record that has a \<^verbatim>\<open>summary\<close>.\<close>

definition annotate_demo :: "jsval \<Rightarrow> metrics_summary \<Rightarrow> metrics_record \<Rightarrow> metrics_record" where
  "annotate_demo mode sm m =
    (let ns = (case summary_notes sm of None \<Rightarrow> [] | Some xs \<Rightarrow> xs)
     in if mode = Primitive (JStr ''fair'') then
          m\<lparr>classification := Some ''fair'',
            summary := Some (sm\<lparr>summary_notes := Some (''Generated fair plan (demo placeholder).'' # ns)\<rparr>)\<rparr>
        else if mode = Primitive (JStr ''favor_democrats'') then
          m\<lparr>classification := Some ''favors_democrats'',
            summary := Some (sm\<lparr>summary_notes := Some (''Generated plan favoring Democrats (demo placeholder).'' # ns)\<rparr>)\<rparr>
        else if mode = Primitive (JStr ''favor_republicans'') then
          m\<lparr>classification := Some ''favors_republicans'',
            summary := Some (sm\<lparr>summary_notes := Some (''Generated plan favoring Republicans (demo placeholder).'' # ns)\<rparr>)\<rparr>
        else m\<lparr>summary := Some (sm\<lparr>summary_notes := Some ns\<rparr>)\<rparr>)"

text \<open>
  Lines 118-138, the call awaited to its end: the record fetched is a fresh object that
  nothing else refers to, so it is kept as a value.
\<close>

definition generatePlan_demo ::
  "state_code \<Rightarrow> jsval \<Rightarrow> metrics_record parsed fetch_outcome \<Rightarrow> sys \<Rightarrow> (exn + jsval) \<times> sys" where
  "generatePlan_demo stateCode mode fo s =
    (let s1 = s\<lparr>requests := requests s @ [Get_metrics stateCode]\<rparr>
     in case loadDemoMetrics fo of
          Inl e \<Rightarrow> (Inl e, s1)
        | Inr m \<Rightarrow>
            (let s2 = (case m of
                         Prim _ \<Rightarrow> s1
                       | Obj r \<Rightarrow>
                          (case summary r of
                             None \<Rightarrow> s1
                           | Some sm \<Rightarrow> s1\<lparr>sidebar := Some (show_record False (Some (annotate_demo mode sm r)))\<rparr>))
             in (Inr Undefined,
                 (case currentGeo s2 of None \<Rightarrow> s2 | Some g \<Rightarrow> renderGeojson g s2))))"

section \<open>Example data\<close>

text \<open>A district of California whose \<^verbatim>\<open>STATEFP\<close> is written without its leading zero.\<close>

definition unpadded_feature :: feature where
  "unpadded_feature =
    \<lparr>properties = [(''STATEFP'', JStr ''6''), (''CD118FP'', JStr ''12'')],
     geometry = Some (32, -125, 42, -114)\<rparr>"

definition unpadded_topology :: "topology parsed" where
  "unpadded_topology = Obj \<lparr>objects = Some [(''districts'', GeometryCollection [unpadded_feature])]\<rparr>"

text \<open>The program's state after a first rendering of that district, from the initial state.\<close>

definition rendered :: sys where
  "rendered = renderDistricts (FeatureCollection [unpadded_feature]) styleDistrictBase initial"


text \<open>A payload with one district of California and one of Wyoming, and its response.\<close>

definition ca_district :: feature where
  "ca_district =
    \<lparr>properties = [(''STATEFP'', JStr ''06''), (''CD118FP'', JStr ''12'')],
     geometry = Some (32, -125, 42, -114)\<rparr>"

definition wy_district :: feature where
  "wy_district =
    \<lparr>properties = [(''STATEFP'', JStr ''56''), (''CD118FP'', JStr ''00'')],
     geometry = Some (41, -111, 45, -104)\<rparr>"

definition two_states :: topology where
  "two_states = \<lparr>objects = Some [(''districts'', GeometryCollection [ca_district, wy_district])]\<rparr>"

text \<open>
  \<^verbatim>\<open>WY\<close> is selected, then \<^verbatim>\<open>CA\<close> while the first topology request is pending; the
  request of \<^verbatim>\<open>CA\<close> is answered first, the one of \<^verbatim>\<open>WY\<close> after it; both metrics requests
  fail.
\<close>

definition stale_schedule :: "event list" where
  "stale_schedule =
    [Select ''WY'', Select ''CA'',
     Settle 1 (Congress (arrives two_states)), Settle 1 Body,
     Settle 0 (Congress (arrives two_states)), Settle 0 Body,
     Settle 1 (Metrics Fetch_rejects), Settle 0 (Metrics Fetch_rejects)]"

text \<open>The state once \<^verbatim>\<open>CA\<close> has been selected and shown, its metrics request having failed.\<close>

definition ready_CA :: sys where
  "ready_CA =
    fst (run [Select ''CA'', Settle 0 (Congress (arrives two_states)), Settle 0 Body,
              Settle 0 (Metrics Fetch_rejects)] (initial, []))"

text \<open>
  The state once the metrics of \<^verbatim>\<open>CA\<close> have been requested without success, as by
  \<^verbatim>\<open>warmMetricsCache\<close>: the fallback record is cached and no state has been selected.
\<close>

definition warmed_CA :: sys where
  "warmed_CA = snd (loadMetrics_call ''CA'' Fetch_rejects initial)"

section \<open>Properties of the tables\<close>

lemma STATE_FIPS_keys_distinct: "distinct (map fst STATE_FIPS_entries)"
  unfolding STATE_FIPS_entries_def by simp

lemma STATE_FIPS_values_distinct: "distinct (map snd STATE_FIPS_entries)"
  unfolding STATE_FIPS_entries_def by simp

lemma js_object_distinct:
  assumes "distinct (map fst entries)"
  shows "js_object entries k = Some v \<longleftrightarrow> (k, v) \<in> set entries"
proof -
  have "distinct (map fst (rev entries))"
    using assms by (simp add: rev_map [symmetric])
  then have "map_of (rev entries) k = Some v \<longleftrightarrow> (k, v) \<in> set (rev entries)"
    by (metis map_of_SomeD map_of_is_SomeI)
  then show ?thesis
    by (simp add: js_object_def)
qed

lemma STATE_FIPS_iff: "STATE_FIPS code = Some f \<longleftrightarrow> (code, f) \<in> set STATE_FIPS_entries"
  unfolding STATE_FIPS_def by (rule js_object_distinct [OF STATE_FIPS_keys_distinct])

lemma FIPS_STATE_iff: "FIPS_STATE f = Some code \<longleftrightarrow> (code, f) \<in> set STATE_FIPS_entries"
proof -
  have d: "distinct (map fst (map (\<lambda>(k, v). (v, k)) STATE_FIPS_entries))"
    using STATE_FIPS_values_distinct by (simp add: comp_def case_prod_unfold)
  have "FIPS_STATE f = Some code \<longleftrightarrow> (f, code) \<in> set (map (\<lambda>(k, v). (v, k)) STATE_FIPS_entries)"
    unfolding FIPS_STATE_def by (rule js_object_distinct [OF d])
  also have "\<dots> \<longleftrightarrow> (code, f) \<in> set STATE_FIPS_entries"
    by force
  finally show ?thesis .
qed

lemma dom_STATE_FIPS: "dom STATE_FIPS = set (map fst STATE_FIPS_entries)"
  by (auto simp: STATE_FIPS_iff dom_def image_iff) force

lemma card_dom_STATE_FIPS: "card (dom STATE_FIPS) = 52"
proof -
  have "length STATE_FIPS_entries = 52"
    unfolding STATE_FIPS_entries_def by simp
  then show ?thesis
    unfolding dom_STATE_FIPS using distinct_card [OF STATE_FIPS_keys_distinct] by simp
qed

text \<open>
  C5. For every code of the table, \<^verbatim>\<open>FIPS_STATE[STATE_FIPS[code]]\<close> is the code again;
  for every identifier of the inverse table, \<^verbatim>\<open>STATE_FIPS[FIPS_STATE[id]]\<close> is the
  identifier again; so the code-to-identifier mapping is injective on the table, and maps
  the table's codes onto the keys of the inverse table.
\<close>

theorem fips_round_trip:
  "(\<forall>code f. STATE_FIPS code = Some f \<longrightarrow> FIPS_STATE f = Some code) \<and>
   (\<forall>f code. FIPS_STATE f = Some code \<longrightarrow> STATE_FIPS code = Some f) \<and>
   inj_on STATE_FIPS (dom STATE_FIPS) \<and>
   bij_betw (\<lambda>code. the (STATE_FIPS code)) (dom STATE_FIPS) (dom FIPS_STATE)"
proof -
  have rt: "\<And>code f. STATE_FIPS code = Some f \<Longrightarrow> FIPS_STATE f = Some code"
    by (simp add: STATE_FIPS_iff FIPS_STATE_iff)
  have tr: "\<And>f code. FIPS_STATE f = Some code \<Longrightarrow> STATE_FIPS code = Some f"
    by (simp add: STATE_FIPS_iff FIPS_STATE_iff)
  have inj: "inj_on STATE_FIPS (dom STATE_FIPS)"
  proof (rule inj_onI)
    fix a b
    assume "a \<in> dom STATE_FIPS" and "b \<in> dom STATE_FIPS" and eq: "STATE_FIPS a = STATE_FIPS b"
    then obtain f where fa: "STATE_FIPS a = Some f"
      by auto
    with eq have fb: "STATE_FIPS b = Some f"
      by simp
    from rt [OF fa] rt [OF fb] show "a = b"
      by simp
  qed
  have bij: "bij_betw (\<lambda>code. the (STATE_FIPS code)) (dom STATE_FIPS) (dom FIPS_STATE)"
  proof (rule bij_betw_byWitness [where f' = "\<lambda>f. the (FIPS_STATE f)"])
    show "\<forall>a\<in>dom STATE_FIPS. the (FIPS_STATE (the (STATE_FIPS a))) = a"
      using rt by fastforce
    show "\<forall>a'\<in>dom FIPS_STATE. the (STATE_FIPS (the (FIPS_STATE a'))) = a'"
      using tr by fastforce
    show "(\<lambda>code. the (STATE_FIPS code)) ` dom STATE_FIPS \<subseteq> dom FIPS_STATE"
      using rt by fastforce
    show "(\<lambda>f. the (FIPS_STATE f)) ` dom FIPS_STATE \<subseteq> dom STATE_FIPS"
      using tr by fastforce
  qed
  from rt tr inj bij show ?thesis
    by blast
qed

theorem fips_round_trip_witness:
  "STATE_FIPS ''CA'' = Some ''06'' \<and> FIPS_STATE ''06'' = Some ''CA'' \<and>
   FIPS_STATE ''72'' = Some ''PR'' \<and> STATE_FIPS ''PR'' = Some ''72''"
proof -
  have a: "STATE_FIPS ''CA'' = Some ''06''"
    by (simp add: STATE_FIPS_def js_object_def STATE_FIPS_entries_def)
  have b: "FIPS_STATE ''72'' = Some ''PR''"
    by (simp add: FIPS_STATE_def js_object_def STATE_FIPS_entries_def)
  from a b fips_round_trip show ?thesis
    by blast
qed

text \<open>
  C6. The table has 52 entries with 52 different codes, not 51: fifty states, the
  District of Columbia (\<^verbatim>\<open>DC\<close>) and one territory (\<^verbatim>\<open>PR\<close>).
\<close>

theorem state_table_size:
  "length STATE_FIPS_entries = 52 \<and> card (dom STATE_FIPS) = 52 \<and>
   card (dom STATE_FIPS - {''DC'', ''PR''}) = 50 \<and> card (dom FIPS_STATE) = 52"
proof -
  have len: "length STATE_FIPS_entries = 52"
    unfolding STATE_FIPS_entries_def by simp
  have mem: "{''DC'', ''PR''} \<subseteq> dom STATE_FIPS"
    unfolding dom_STATE_FIPS STATE_FIPS_entries_def by simp
  have c2: "card (dom STATE_FIPS - {''DC'', ''PR''}) = 50"
    using card_Diff_subset [of "{''DC'', ''PR''}" "dom STATE_FIPS"] mem card_dom_STATE_FIPS by simp
  have dom2: "dom FIPS_STATE = set (map snd STATE_FIPS_entries)"
    by (auto simp: FIPS_STATE_iff dom_def image_iff) force
  have c3: "card (dom FIPS_STATE) = 52"
    unfolding dom2 using distinct_card [OF STATE_FIPS_values_distinct] len by simp
  from len card_dom_STATE_FIPS c2 c3 show ?thesis
    by simp
qed

theorem state_table_size_counterexample: "card (dom STATE_FIPS) \<noteq> 51"
  using card_dom_STATE_FIPS by simp

section \<open>Districts of a state\<close>

lemma STATE_FIPS_nonempty: "STATE_FIPS code = Some f \<Longrightarrow> f \<noteq> []"
  unfolding STATE_FIPS_iff STATE_FIPS_entries_def by auto

lemma STATE_FIPS_CA: "STATE_FIPS ''CA'' = Some ''06''"
  by (simp add: STATE_FIPS_def js_object_def STATE_FIPS_entries_def)

lemma STATE_FIPS_WY: "STATE_FIPS ''WY'' = Some ''56''"
  by (simp add: STATE_FIPS_def js_object_def STATE_FIPS_entries_def)

lemma filter_districts_collection:
  "pick_object t = Inr (GeometryCollection fs) \<Longrightarrow>
   filter_districts (Obj t) fips = Inr (FeatureCollection (filter (\<lambda>f. feature_state f = fips) fs))"
  by (simp add: filter_districts_def)

lemma loadStateDistricts_begin_cached:
  assumes "STATE_FIPS stateCode = Some fips" and "CONGRESS_TOPO s = Some (Obj t)"
    and "pick_object t = Inr (GeometryCollection fs)"
  shows "loadStateDistricts_begin stateCode s =
           (Done (FeatureCollection (filter (\<lambda>f. feature_state f = fips) fs)), s)"
  using assms STATE_FIPS_nonempty [OF assms(1)]
  by (simp add: loadStateDistricts_begin_def truthy_topo_def districts_now_def filter_districts_collection)

lemma loadStateDistricts_parsed_collection:
  assumes "pick_object t = Inr (GeometryCollection fs)"
  shows "loadStateDistricts_parsed fips (Json_resolves (Obj t)) s =
           (Done (FeatureCollection (filter (\<lambda>f. feature_state f = fips) fs)),
            s\<lparr>CONGRESS_TOPO := Some (Obj t)\<rparr>)"
  using assms
  by (simp add: loadStateDistricts_parsed_def districts_now_def filter_districts_collection)

lemma unpadded_feature_state: "feature_state unpadded_feature = ''06''"
  by (simp add: feature_state_def unpadded_feature_def js_object_def or_else_def padStart2_def)

lemma unpadded_pick:
  "pick_object \<lparr>objects = Some [(''districts'', GeometryCollection [unpadded_feature])]\<rparr> =
     Inr (GeometryCollection [unpadded_feature])"
  by (simp add: pick_object_def js_object_def)

text \<open>
  C7. For a state code of the table and a payload whose district object converts to a
  feature collection, \<^verbatim>\<open>loadStateDistricts\<close> returns, from the cached payload at once and
  otherwise after the request and the two awaits, the features whose state property (\<^verbatim>\<open>STATEFP\<close>, else \<^verbatim>\<open>state\<close>, else the
  empty string), converted to a string and padded on the left with "0" to two characters,
  is the state's numeric identifier; when no feature matches, it returns the empty
  collection and raises nothing.
\<close>

theorem districts_for_state:
  assumes "STATE_FIPS stateCode = Some fips"
    and "pick_object t = Inr (GeometryCollection fs)"
  shows "\<exists>g. (CONGRESS_TOPO s = Some (Obj t) \<longrightarrow> loadStateDistricts_begin stateCode s = (Done g, s)) \<and>
              (\<not> truthy_topo (CONGRESS_TOPO s) \<longrightarrow>
                 loadStateDistricts_begin stateCode s =
                   (Suspend (Districts_fetch fips), s\<lparr>requests := requests s @ [Get_congress]\<rparr>)) \<and>
              loadStateDistricts_fetched fips (arrives t) s =
                (Suspend (Districts_json fips (Json_resolves (Obj t))), s) \<and>
              loadStateDistricts_parsed fips (Json_resolves (Obj t)) s =
                (Done g, s\<lparr>CONGRESS_TOPO := Some (Obj t)\<rparr>) \<and>
              features g = filter (\<lambda>f. feature_state f = fips) fs \<and>
              (\<forall>f \<in> set (features g). f \<in> set fs \<and> feature_state f = fips) \<and>
              ((\<forall>f \<in> set fs. feature_state f \<noteq> fips) \<longrightarrow> g = FeatureCollection [])"
proof -
  let ?g = "FeatureCollection (filter (\<lambda>f. feature_state f = fips) fs)"
  have a: "CONGRESS_TOPO s = Some (Obj t) \<longrightarrow> loadStateDistricts_begin stateCode s = (Done ?g, s)"
    using loadStateDistricts_begin_cached [OF assms(1) _ assms(2)] by blast
  have b: "loadStateDistricts_parsed fips (Json_resolves (Obj t)) s = (Done ?g, s\<lparr>CONGRESS_TOPO := Some (Obj t)\<rparr>)"
    by (rule loadStateDistricts_parsed_collection [OF assms(2)])
  have c: "(\<forall>f \<in> set fs. feature_state f \<noteq> fips) \<longrightarrow> ?g = FeatureCollection []"
    by (simp add: filter_empty_conv)
  have d: "\<not> truthy_topo (CONGRESS_TOPO s) \<longrightarrow>
      loadStateDistricts_begin stateCode s =
        (Suspend (Districts_fetch fips), s\<lparr>requests := requests s @ [Get_congress]\<rparr>)"
    using assms(1) STATE_FIPS_nonempty [OF assms(1)] by (simp add: loadStateDistricts_begin_def)
  have e: "loadStateDistricts_fetched fips (arrives t) s =
      (Suspend (Districts_json fips (Json_resolves (Obj t))), s)"
    by (simp add: loadStateDistricts_fetched_def arrives_def)
  from a b c d e show ?thesis
    by (intro exI [of _ ?g]) simp
qed

theorem districts_for_state_witness:
  "loadStateDistricts_begin ''CA'' (initial\<lparr>CONGRESS_TOPO := Some unpadded_topology\<rparr>) =
     (Done (FeatureCollection [unpadded_feature]), initial\<lparr>CONGRESS_TOPO := Some unpadded_topology\<rparr>) \<and>
   feature_state unpadded_feature = ''06''"
proof -
  let ?s = "initial\<lparr>CONGRESS_TOPO := Some unpadded_topology\<rparr>"
  have topo: "CONGRESS_TOPO ?s =
      Some (Obj \<lparr>objects = Some [(''districts'', GeometryCollection [unpadded_feature])]\<rparr>)"
    by (simp add: unpadded_topology_def)
  from districts_for_state [OF STATE_FIPS_CA unpadded_pick, of ?s] topo
  obtain g where run: "loadStateDistricts_begin ''CA'' ?s = (Done g, ?s)"
    and fs: "features g = filter (\<lambda>f. feature_state f = ''06'') [unpadded_feature]"
    by blast
  from fs have "g = FeatureCollection [unpadded_feature]"
    by (cases g) (simp add: unpadded_feature_state)
  with run unpadded_feature_state show ?thesis
    by simp
qed

text \<open>
  The state property itself need not be the identifier: for \<^verbatim>\<open>CA\<close> (\<^verbatim>\<open>"06"\<close>) the call
  returns a feature whose \<^verbatim>\<open>STATEFP\<close> is \<^verbatim>\<open>"6"\<close>.
\<close>

theorem districts_for_state_counterexample:
  "fst (loadStateDistricts_begin ''CA'' (initial\<lparr>CONGRESS_TOPO := Some unpadded_topology\<rparr>)) =
     Done (FeatureCollection [unpadded_feature]) \<and>
   STATE_FIPS ''CA'' = Some ''06'' \<and>
   js_object (properties unpadded_feature) ''STATEFP'' = Some (JStr ''6'') \<and>
   js_object (properties unpadded_feature) ''state'' = None \<and>
   JStr ''6'' \<noteq> JStr ''06''"
proof -
  have topo: "CONGRESS_TOPO (initial\<lparr>CONGRESS_TOPO := Some unpadded_topology\<rparr>) =
      Some (Obj \<lparr>objects = Some [(''districts'', GeometryCollection [unpadded_feature])]\<rparr>)"
    by (simp add: unpadded_topology_def)
  have "loadStateDistricts_begin ''CA'' (initial\<lparr>CONGRESS_TOPO := Some unpadded_topology\<rparr>) =
     (Done (FeatureCollection [unpadded_feature]), initial\<lparr>CONGRESS_TOPO := Some unpadded_topology\<rparr>)"
    using loadStateDistricts_begin_cached [OF STATE_FIPS_CA topo unpadded_pick] unpadded_feature_state
    by simp
  moreover have "js_object (properties unpadded_feature) ''STATEFP'' = Some (JStr ''6'')"
    and "js_object (properties unpadded_feature) ''state'' = None"
    by (simp_all add: unpadded_feature_def js_object_def)
  ultimately show ?thesis
    using STATE_FIPS_CA by simp
qed

section \<open>Rendering an empty collection\<close>

lemma render_layer_empty:
  assumes "features geojson = []"
  shows "render_layer popup geojson st padding s =
           s\<lparr>geoLayer := Some \<lparr>layer_id = next_ref s, layer_data = [], layer_style = st, layer_popups = []\<rparr>,
             map_layers := (case geoLayer s of None \<Rightarrow> map_layers s | Some old \<Rightarrow> removeAll old (map_layers s)) @
                            [\<lparr>layer_id = next_ref s, layer_data = [], layer_style = st, layer_popups = []\<rparr>],
             next_ref := Suc (next_ref s)\<rparr>"
  using assms by (simp add: render_layer_def Let_def getBounds_def fitBounds_def)

text \<open>
  C9. Rendering a collection without features returns with the viewport as it was: the
  bounds of the new layer are not valid, \<^verbatim>\<open>fitBounds\<close> raises and the exception is dropped.
  The layer rendered before, if any, is taken off the map, and the new, empty layer is
  attached after the layers that remain (an object that exists already has an identity
  other than the next fresh one, so the old layer is not on the map afterwards). The
  viewport is left as it was by the older \<^verbatim>\<open>renderGeojson\<close> too.
\<close>

theorem render_empty_collection:
  assumes "features geojson = []"
  shows "viewport (renderDistricts geojson st s) = viewport s \<and>
         viewport (renderGeojson geojson s) = viewport s \<and>
         fitBounds (getBounds \<lparr>layer_id = next_ref s, layer_data = features geojson, layer_style = st,
              layer_popups = map onEachDistrict (features geojson)\<rparr>) 18
           = Inl Bounds_not_valid \<and>
         geoLayer (renderDistricts geojson st s) = Some \<lparr>layer_id = next_ref s, layer_data = [], layer_style = st, layer_popups = []\<rparr> \<and>
         map_layers (renderDistricts geojson st s) =
           (case geoLayer s of None \<Rightarrow> map_layers s | Some old \<Rightarrow> removeAll old (map_layers s)) @
           [\<lparr>layer_id = next_ref s, layer_data = [], layer_style = st, layer_popups = []\<rparr>] \<and>
         (\<forall>old. geoLayer s = Some old \<and> layer_id old \<noteq> next_ref s \<longrightarrow>
                old \<notin> set (map_layers (renderDistricts geojson st s)))"
  using assms
  by (auto simp: renderDistricts_def renderGeojson_def render_layer_empty getBounds_def fitBounds_def)

lemma rendered_eq:
  "rendered = initial\<lparr>geoLayer := Some \<lparr>layer_id = 0, layer_data = [unpadded_feature], layer_style = styleDistrictBase,
              layer_popups = [onEachDistrict unpadded_feature]\<rparr>,
             map_layers := [\<lparr>layer_id = 0, layer_data = [unpadded_feature], layer_style = styleDistrictBase,
              layer_popups = [onEachDistrict unpadded_feature]\<rparr>],
             next_ref := 1, viewport := Fitted (32, -125, 42, -114) 18\<rparr>"
  by (simp add: rendered_def renderDistricts_def render_layer_def Let_def getBounds_def fitBounds_def
      initial_def unpadded_feature_def)

theorem render_empty_collection_witness:
  "viewport (renderDistricts (FeatureCollection []) styleDistrictBase rendered) = Fitted (32, -125, 42, -114) 18 \<and>
   map_layers (renderDistricts (FeatureCollection []) styleDistrictBase rendered) =
     [\<lparr>layer_id = 1, layer_data = [], layer_style = styleDistrictBase, layer_popups = []\<rparr>] \<and>
   map_layers rendered = [\<lparr>layer_id = 0, layer_data = [unpadded_feature], layer_style = styleDistrictBase,
              layer_popups = [onEachDistrict unpadded_feature]\<rparr>]"
proof -
  have f: "features (FeatureCollection []) = []"
    by simp
  from render_empty_collection [OF f, of styleDistrictBase rendered] show ?thesis
    by (simp add: rendered_eq initial_def)
qed

section \<open>The metrics cache\<close>

lemma resume_finished [simp]:
  "resume (Returned v) x s = (Returned v, s)" "resume (Threw e) x s = (Threw e, s)"
  by (simp_all add: resume_def)

lemma loadMetrics_call_hit:
  "truthy_val (cache_get s stateCode) \<Longrightarrow>
   loadMetrics_call stateCode fo s = (Returned (cache_get s stateCode), s)"
  by (simp add: loadMetrics_call_def loadMetrics_def loadMetrics_begin_def loadMetrics_task_def)

lemma store_fallback_eq:
  "store_fallback stateCode s =
    (Done (Ref (next_ref s)),
     s\<lparr>heap := (heap s)(next_ref s \<mapsto> fallback_record), next_ref := Suc (next_ref s),
       METRICS_CACHE := (METRICS_CACHE s)(stateCode \<mapsto> Ref (next_ref s))\<rparr>)"
  by (simp add: store_fallback_def new_object_def)

lemma loadMetrics_call_miss:
  assumes "\<not> truthy_val (cache_get s stateCode)"
  shows "loadMetrics_call stateCode fo s =
    loadMetrics_task stateCode
      (case fo of
         Fetch_rejects \<Rightarrow> store_fallback stateCode (s\<lparr>requests := requests s @ [Get_metrics stateCode]\<rparr>)
       | Fetch_resolves resp \<Rightarrow>
           if ok resp then loadMetrics_parsed stateCode (json resp) (s\<lparr>requests := requests s @ [Get_metrics stateCode]\<rparr>)
           else store_fallback stateCode (s\<lparr>requests := requests s @ [Get_metrics stateCode]\<rparr>))"
  using assms
  by (auto simp: loadMetrics_call_def loadMetrics_def loadMetrics_begin_def loadMetrics_task_def
      resume_def loadMetrics_fetched_def store_fallback_eq loadMetrics_parsed_def new_object_def
      split: fetch_outcome.splits json_outcome.splits parsed.splits)

lemma loadMetrics_call_result:
  "\<exists>v s1. loadMetrics_call stateCode fo s = (Returned v, s1) \<and> cache_get s1 stateCode = v \<and>
     (requests s1 = requests s \<or> requests s1 = requests s @ [Get_metrics stateCode]) \<and>
     (falsy_body fo \<or> truthy_val v)"
proof (cases "truthy_val (cache_get s stateCode)")
  case True
  then show ?thesis
    by (simp add: loadMetrics_call_hit)
next
  case False
  show ?thesis
    unfolding loadMetrics_call_miss [OF False]
    by (cases fo rule: falsy_body.cases)
      (auto simp: loadMetrics_task_def store_fallback_eq loadMetrics_parsed_def new_object_def cache_get_def)
qed

text \<open>
  C2. When the cache has no truthy entry for the code and the fetch fails (the promise is
  rejected, or the response is not \<^verbatim>\<open>ok\<close>), \<^verbatim>\<open>loadMetrics\<close> returns a new object that is
  the fallback record, and has stored it in the cache. Whatever the endpoint answers and
  whatever the state, a call of \<^verbatim>\<open>loadMetrics\<close> awaited to its end returns a value: it
  never raises.
\<close>

theorem loadMetrics_fetch_failure:
  assumes "\<not> truthy_val (cache_get s stateCode)"
    and "fo = Fetch_rejects \<or> fo = Fetch_resolves (Response False jo)"
  shows "fst (loadMetrics_call stateCode fo s) = Returned (Ref (next_ref s)) \<and>
         heap (snd (loadMetrics_call stateCode fo s)) (next_ref s) = Some fallback_record \<and>
         METRICS_CACHE (snd (loadMetrics_call stateCode fo s)) stateCode = Some (Ref (next_ref s)) \<and>
         requests (snd (loadMetrics_call stateCode fo s)) = requests s @ [Get_metrics stateCode] \<and>
         fallback_record = \<lparr>classification = Some ''unknown'', summary = Some \<lparr>summary_notes = Some [''No metrics'']\<rparr>\<rparr> \<and>
         (\<forall>fo' s'. \<exists>v. fst (loadMetrics_call stateCode fo' s') = Returned v)"
proof -
  have never: "\<forall>fo' s'. \<exists>v. fst (loadMetrics_call stateCode fo' s') = Returned v"
  proof (intro allI)
    fix fo' s'
    from loadMetrics_call_result [of stateCode fo' s'] show "\<exists>v. fst (loadMetrics_call stateCode fo' s') = Returned v"
      by auto
  qed
  from assms(2) have "loadMetrics_call stateCode fo s =
      loadMetrics_task stateCode (store_fallback stateCode (s\<lparr>requests := requests s @ [Get_metrics stateCode]\<rparr>))"
    unfolding loadMetrics_call_miss [OF assms(1)] by auto
  then show ?thesis
    using never by (simp add: store_fallback_eq loadMetrics_task_def fallback_record_def)
qed

theorem loadMetrics_fetch_failure_witness:
  "fst (loadMetrics_call ''CA'' Fetch_rejects initial) = Returned (Ref 0) \<and>
   heap (snd (loadMetrics_call ''CA'' Fetch_rejects initial)) 0 = Some fallback_record \<and>
   METRICS_CACHE (snd (loadMetrics_call ''CA'' Fetch_rejects initial)) ''CA'' = Some (Ref 0)"
proof -
  have miss: "\<not> truthy_val (cache_get initial ''CA'')"
    by (simp add: cache_get_def initial_def)
  from loadMetrics_fetch_failure [OF miss, of Fetch_rejects] show ?thesis
    by (simp add: initial_def)
qed




section \<open>Plan generation\<close>


lemma render_layer_frame [simp]:
  "heap (render_layer pop g st p s) = heap s"
  "METRICS_CACHE (render_layer pop g st p s) = METRICS_CACHE s"
  "currentGeo (render_layer pop g st p s) = currentGeo s"
  "selectedState (render_layer pop g st p s) = selectedState s"
  "requests (render_layer pop g st p s) = requests s"
  "CONGRESS_TOPO (render_layer pop g st p s) = CONGRESS_TOPO s"
  "sidebar (render_layer pop g st p s) = sidebar s"
  by (simp_all add: render_layer_def Let_def split: sum.splits)

lemma showMetrics_frame [simp]:
  "heap (showMetrics v s) = heap s"
  "METRICS_CACHE (showMetrics v s) = METRICS_CACHE s"
  "currentGeo (showMetrics v s) = currentGeo s"
  "selectedState (showMetrics v s) = selectedState s"
  "requests (showMetrics v s) = requests s"
  "CONGRESS_TOPO (showMetrics v s) = CONGRESS_TOPO s"
  "geoLayer (showMetrics v s) = geoLayer s"
  "map_layers (showMetrics v s) = map_layers s"
  "viewport (showMetrics v s) = viewport s"
  "next_ref (showMetrics v s) = next_ref s"
  by (simp_all add: showMetrics_def)

lemma generatePlan_cached:
  assumes "currentGeo s = Some g" and "METRICS_CACHE s stateCode = Some (Ref a)" and "heap s a = Some m"
  shows "generatePlan stateCode mode s =
    (Returned Undefined,
     renderDistricts g (styleDistrictMode mode)
       (showMetrics (Ref a) (s\<lparr>heap := (heap s)(a \<mapsto> annotate mode m)\<rparr>)))"
  using assms
  by (simp add: generatePlan_def loadMetrics_begin_def cache_get_def generatePlan_metrics_def)

lemma generatePlan_cached_frame:
  assumes "currentGeo s = Some g" and "METRICS_CACHE s stateCode = Some (Ref a)" and "heap s a = Some m"
  shows "fst (generatePlan stateCode mode s) = Returned Undefined"
    and "heap (snd (generatePlan stateCode mode s)) = (heap s)(a \<mapsto> annotate mode m)"
    and "METRICS_CACHE (snd (generatePlan stateCode mode s)) = METRICS_CACHE s"
    and "currentGeo (snd (generatePlan stateCode mode s)) = Some g"
    and "requests (snd (generatePlan stateCode mode s)) = requests s"
  unfolding generatePlan_cached [OF assms] by (simp_all add: renderDistricts_def assms)

lemma annotate_fair:
  "classification (annotate (Primitive (JStr ''fair'')) m) = Some ''fair''"
  "notes_of (annotate (Primitive (JStr ''fair'')) m) = ''Generated fair plan (demo).'' # notes_of m"
  by (simp_all add: annotate_def notes_of_def Let_def split: option.splits)


lemma generatePlan_repeated:
  assumes "currentGeo s = Some g" and "METRICS_CACHE s stateCode = Some (Ref a)" and "heap s a = Some m"
  shows "currentGeo (((\<lambda>s. snd (generatePlan stateCode mode s)) ^^ n) s) = Some g \<and>
         METRICS_CACHE (((\<lambda>s. snd (generatePlan stateCode mode s)) ^^ n) s) stateCode = Some (Ref a) \<and>
         heap (((\<lambda>s. snd (generatePlan stateCode mode s)) ^^ n) s) a = Some ((annotate mode ^^ n) m)"
proof (induction n)
  case 0
  from assms show ?case by simp
next
  case (Suc n)
  let ?s = "((\<lambda>s. snd (generatePlan stateCode mode s)) ^^ n) s"
  from Suc have g: "currentGeo ?s = Some g" and c: "METRICS_CACHE ?s stateCode = Some (Ref a)"
    and h: "heap ?s a = Some ((annotate mode ^^ n) m)"
    by simp_all
  show ?case
    using generatePlan_cached_frame(2-4) [OF g c h, of mode] c by simp
qed

lemma annotate_fair_repeated:
  "notes_of ((annotate (Primitive (JStr ''fair'')) ^^ n) m) =
     replicate n ''Generated fair plan (demo).'' @ notes_of m"
  by (induction n) (simp_all add: annotate_fair)

text \<open>
  C3. When a district collection is current and the cache holds a metrics record for the
  state, \<^verbatim>\<open>generatePlan\<close> with the mode \<^verbatim>\<open>"fair"\<close> returns at once, and leaves in the cache
  the same object, with the classification \<^verbatim>\<open>"fair"\<close> and the fair-mode note put before
  its notes. After \<open>n\<close> calls the notes are \<open>n\<close> copies of that note followed by the
  original notes: one more note for each call.
\<close>

theorem generatePlan_fair:
  assumes "currentGeo s = Some g" and "METRICS_CACHE s stateCode = Some (Ref a)" and "heap s a = Some m"
  shows "fst (generatePlan stateCode (Primitive (JStr ''fair'')) s) = Returned Undefined \<and>
         METRICS_CACHE (snd (generatePlan stateCode (Primitive (JStr ''fair'')) s)) stateCode = Some (Ref a) \<and>
         (\<exists>m'. heap (snd (generatePlan stateCode (Primitive (JStr ''fair'')) s)) a = Some m' \<and>
               classification m' = Some ''fair'' \<and>
               notes_of m' = ''Generated fair plan (demo).'' # notes_of m) \<and>
         (\<forall>n. \<exists>m'. heap (((\<lambda>s. snd (generatePlan stateCode (Primitive (JStr ''fair'')) s)) ^^ n) s) a = Some m' \<and>
               METRICS_CACHE (((\<lambda>s. snd (generatePlan stateCode (Primitive (JStr ''fair'')) s)) ^^ n) s) stateCode = Some (Ref a) \<and>
               notes_of m' = replicate n ''Generated fair plan (demo).'' @ notes_of m \<and>
               length (notes_of m') = length (notes_of m) + n)"
proof -
  let ?fair = "Primitive (JStr ''fair'')"
  have one: "fst (generatePlan stateCode ?fair s) = Returned Undefined"
    "METRICS_CACHE (snd (generatePlan stateCode ?fair s)) stateCode = Some (Ref a)"
    "heap (snd (generatePlan stateCode ?fair s)) a = Some (annotate ?fair m)"
    using generatePlan_cached_frame [OF assms, of ?fair] assms(2) by simp_all
  have many: "\<exists>m'. heap (((\<lambda>s. snd (generatePlan stateCode ?fair s)) ^^ n) s) a = Some m' \<and>
               METRICS_CACHE (((\<lambda>s. snd (generatePlan stateCode ?fair s)) ^^ n) s) stateCode = Some (Ref a) \<and>
               notes_of m' = replicate n ''Generated fair plan (demo).'' @ notes_of m \<and>
               length (notes_of m') = length (notes_of m) + n" for n
    using generatePlan_repeated [OF assms, where mode = ?fair and n = n] annotate_fair_repeated [of n m] by simp
  from one many show ?thesis
    by (simp add: annotate_fair)
qed


lemma generatePlan_demo_no_districts:
  assumes "currentGeo s = None"
  shows "generatePlan_demo stateCode mode fo s =
    (case loadDemoMetrics fo of
       Inl e \<Rightarrow> (Inl e, s\<lparr>requests := requests s @ [Get_metrics stateCode]\<rparr>)
     | Inr (Prim p) \<Rightarrow> (Inr Undefined, s\<lparr>requests := requests s @ [Get_metrics stateCode]\<rparr>)
     | Inr (Obj r) \<Rightarrow>
         (case summary r of
            None \<Rightarrow> (Inr Undefined, s\<lparr>requests := requests s @ [Get_metrics stateCode]\<rparr>)
          | Some sm \<Rightarrow>
              (Inr Undefined,
               s\<lparr>requests := requests s @ [Get_metrics stateCode],
                 sidebar := Some (show_record False (Some (annotate_demo mode sm r)))\<rparr>)))"
  using assms
  by (simp add: generatePlan_demo_def Let_def split: sum.splits parsed.splits option.splits)

text \<open>
  C4. With no current district collection, \<^verbatim>\<open>generatePlan\<close> of \<^verbatim>\<open>main.js\<close> returns at once
  and the whole state is as before, whatever the code and the mode: nothing is requested,
  nothing is rendered, no record is changed. The older script's \<^verbatim>\<open>generatePlan\<close>, which
  has no metrics cache, skips only its rendering: the layer, the map, the viewport and
  the current collection are as before, but it requests the metrics all the same; when
  the request fails the call is rejected, and when a record with a summary comes back
  the record is annotated by the mode and shown in the sidebar.
\<close>

theorem generatePlan_without_districts:
  assumes "currentGeo s = None"
  shows "generatePlan stateCode mode s = (Returned Undefined, s) \<and>
         generatePlan_call stateCode mode fo s = (Returned Undefined, s) \<and>
         geoLayer (snd (generatePlan_demo stateCode mode fo s)) = geoLayer s \<and>
         map_layers (snd (generatePlan_demo stateCode mode fo s)) = map_layers s \<and>
         viewport (snd (generatePlan_demo stateCode mode fo s)) = viewport s \<and>
         currentGeo (snd (generatePlan_demo stateCode mode fo s)) = None \<and>
         METRICS_CACHE (snd (generatePlan_demo stateCode mode fo s)) = METRICS_CACHE s \<and>
         heap (snd (generatePlan_demo stateCode mode fo s)) = heap s \<and>
         requests (snd (generatePlan_demo stateCode mode fo s)) = requests s @ [Get_metrics stateCode] \<and>
         generatePlan_demo stateCode mode Fetch_rejects s =
           (Inl Network_error, s\<lparr>requests := requests s @ [Get_metrics stateCode]\<rparr>) \<and>
         generatePlan_demo stateCode mode (Fetch_resolves (Response False jo)) s =
           (Inr Undefined, s\<lparr>requests := requests s @ [Get_metrics stateCode]\<rparr>) \<and>
         (summary r = Some sm \<longrightarrow>
            generatePlan_demo stateCode mode (arrives r) s =
              (Inr Undefined,
               s\<lparr>requests := requests s @ [Get_metrics stateCode],
                 sidebar := Some (show_record False (Some (annotate_demo mode sm r)))\<rparr>)) \<and>
         (summary r = Some sm \<longrightarrow>
            classification (annotate_demo (Primitive (JStr ''fair'')) sm r) = Some ''fair'' \<and>
            notes_of (annotate_demo (Primitive (JStr ''fair'')) sm r) =
              ''Generated fair plan (demo placeholder).'' # notes_of r)"
proof -
  have a: "generatePlan stateCode mode s = (Returned Undefined, s)"
    using assms by (simp add: generatePlan_def)
  then have b: "generatePlan_call stateCode mode fo s = (Returned Undefined, s)"
    by (simp add: generatePlan_call_def resume_def)
  have c: "geoLayer (snd (generatePlan_demo stateCode mode fo s)) = geoLayer s \<and>
         map_layers (snd (generatePlan_demo stateCode mode fo s)) = map_layers s \<and>
         viewport (snd (generatePlan_demo stateCode mode fo s)) = viewport s \<and>
         currentGeo (snd (generatePlan_demo stateCode mode fo s)) = None \<and>
         METRICS_CACHE (snd (generatePlan_demo stateCode mode fo s)) = METRICS_CACHE s \<and>
         heap (snd (generatePlan_demo stateCode mode fo s)) = heap s \<and>
         requests (snd (generatePlan_demo stateCode mode fo s)) = requests s @ [Get_metrics stateCode]"
    unfolding generatePlan_demo_no_districts [OF assms]
    using assms by (simp split: sum.splits parsed.splits option.splits)
  have d: "generatePlan_demo stateCode mode Fetch_rejects s =
      (Inl Network_error, s\<lparr>requests := requests s @ [Get_metrics stateCode]\<rparr>)"
    unfolding generatePlan_demo_no_districts [OF assms] by (simp add: loadDemoMetrics_def)
  have e: "generatePlan_demo stateCode mode (Fetch_resolves (Response False jo)) s =
      (Inr Undefined, s\<lparr>requests := requests s @ [Get_metrics stateCode]\<rparr>)"
    unfolding generatePlan_demo_no_districts [OF assms] by (simp add: loadDemoMetrics_def)
  have f: "summary r = Some sm \<longrightarrow>
      generatePlan_demo stateCode mode (arrives r) s =
        (Inr Undefined,
         s\<lparr>requests := requests s @ [Get_metrics stateCode],
           sidebar := Some (show_record False (Some (annotate_demo mode sm r)))\<rparr>)"
    unfolding generatePlan_demo_no_districts [OF assms] by (simp add: loadDemoMetrics_def arrives_def)
  have g: "summary r = Some sm \<longrightarrow>
      classification (annotate_demo (Primitive (JStr ''fair'')) sm r) = Some ''fair'' \<and>
      notes_of (annotate_demo (Primitive (JStr ''fair'')) sm r) =
        ''Generated fair plan (demo placeholder).'' # notes_of r"
    by (simp add: annotate_demo_def notes_of_def Let_def split: option.splits)
  from a b c d e f g show ?thesis
    by simp
qed

lemma ready_CA_fields:
  "currentGeo ready_CA = Some (FeatureCollection [ca_district])"
  "METRICS_CACHE ready_CA ''CA'' = Some (Ref 1)"
  "heap ready_CA 1 = Some fallback_record"
  "selectedState ready_CA = Some ''CA''"
  by code_simp+

theorem generatePlan_fair_witness:
  "map_option classification (heap (snd (generatePlan ''CA'' (Primitive (JStr ''fair'')) ready_CA)) 1) =
     Some (Some ''fair'') \<and>
   map_option notes_of (heap (snd (generatePlan ''CA'' (Primitive (JStr ''fair'')) ready_CA)) 1) =
     Some [''Generated fair plan (demo).'', ''No metrics''] \<and>
   map_option notes_of
     (heap (((\<lambda>s. snd (generatePlan ''CA'' (Primitive (JStr ''fair'')) s)) ^^ 2) ready_CA) 1) =
     Some [''Generated fair plan (demo).'', ''Generated fair plan (demo).'', ''No metrics'']"
proof -
  have n: "notes_of fallback_record = [''No metrics'']"
    by (simp add: notes_of_def fallback_record_def)
  note th = generatePlan_fair [OF ready_CA_fields(1-3)]
  from th obtain m' where "heap (snd (generatePlan ''CA'' (Primitive (JStr ''fair'')) ready_CA)) 1 = Some m'"
    and "classification m' = Some ''fair''" and "notes_of m' = ''Generated fair plan (demo).'' # notes_of fallback_record"
    by blast
  moreover from th obtain m2 where
    "heap (((\<lambda>s. snd (generatePlan ''CA'' (Primitive (JStr ''fair'')) s)) ^^ 2) ready_CA) 1 = Some m2"
    and "notes_of m2 = replicate 2 ''Generated fair plan (demo).'' @ notes_of fallback_record"
    by blast
  ultimately show ?thesis
    by (simp add: n numeral_2_eq_2)
qed


lemma warmed_CA_eq:
  "warmed_CA =
     initial\<lparr>requests := [Get_metrics ''CA''], heap := (\<lambda>_. None)(0 \<mapsto> fallback_record), next_ref := 1,
       METRICS_CACHE := (\<lambda>_. None)(''CA'' \<mapsto> Ref 0)\<rparr>"
proof -
  have miss: "\<not> truthy_val (cache_get initial ''CA'')"
    by (simp add: cache_get_def initial_def)
  show ?thesis
    unfolding warmed_CA_def loadMetrics_call_miss [OF miss]
    by (simp add: store_fallback_eq loadMetrics_task_def initial_def)
qed

lemma fallback_shown:
  "summary fallback_record = Some \<lparr>summary_notes = Some [''No metrics'']\<rparr>"
  "shown_notes (show_record False (Some (annotate_demo (Primitive (JStr ''fair''))
      \<lparr>summary_notes = Some [''No metrics'']\<rparr> fallback_record))) =
     [''Generated fair plan (demo placeholder).'', ''No metrics'']"
  "shown_classification (show_record False (Some (annotate_demo (Primitive (JStr ''fair''))
      \<lparr>summary_notes = Some [''No metrics'']\<rparr> fallback_record))) = ''FAIR''"
  by (simp_all add: fallback_record_def show_record_def annotate_demo_def Let_def toUpperCase_def)

theorem generatePlan_without_districts_witness:
  "currentGeo warmed_CA = None \<and>
   METRICS_CACHE warmed_CA ''CA'' = Some (Ref 0) \<and> heap warmed_CA 0 = Some fallback_record \<and>
   generatePlan ''CA'' (Primitive (JStr ''fair'')) warmed_CA = (Returned Undefined, warmed_CA) \<and>
   generatePlan_call ''CA'' (Primitive (JStr ''fair'')) Fetch_rejects warmed_CA = (Returned Undefined, warmed_CA) \<and>
   map_layers (snd (generatePlan_demo ''CA'' (Primitive (JStr ''fair'')) (arrives fallback_record) warmed_CA)) = [] \<and>
   requests (snd (generatePlan_demo ''CA'' (Primitive (JStr ''fair'')) (arrives fallback_record) warmed_CA)) =
     [Get_metrics ''CA'', Get_metrics ''CA''] \<and>
   map_option shown_notes
     (sidebar (snd (generatePlan_demo ''CA'' (Primitive (JStr ''fair'')) (arrives fallback_record) warmed_CA))) =
     Some [''Generated fair plan (demo placeholder).'', ''No metrics''] \<and>
   fst (generatePlan_demo ''CA'' (Primitive (JStr ''fair'')) Fetch_rejects warmed_CA) = Inl Network_error"
proof -
  have n: "currentGeo warmed_CA = None"
    by (simp add: warmed_CA_eq initial_def)
  have w: "METRICS_CACHE warmed_CA ''CA'' = Some (Ref 0)" "heap warmed_CA 0 = Some fallback_record"
    "map_layers warmed_CA = []" "requests warmed_CA = [Get_metrics ''CA'']"
    by (simp_all add: warmed_CA_eq initial_def)
  note th = generatePlan_without_districts [OF n, of "''CA''" "Primitive (JStr ''fair'')"
      "arrives fallback_record" _ fallback_record "\<lparr>summary_notes = Some [''No metrics'']\<rparr>"]
  from th fallback_shown(1)
  have run: "generatePlan_demo ''CA'' (Primitive (JStr ''fair'')) (arrives fallback_record) warmed_CA =
      (Inr Undefined,
       warmed_CA\<lparr>requests := requests warmed_CA @ [Get_metrics ''CA''],
         sidebar := Some (show_record False (Some (annotate_demo (Primitive (JStr ''fair''))
             \<lparr>summary_notes = Some [''No metrics'']\<rparr> fallback_record)))\<rparr>)"
    by blast
  from th have main: "generatePlan ''CA'' (Primitive (JStr ''fair'')) warmed_CA = (Returned Undefined, warmed_CA)"
    and rej: "generatePlan_demo ''CA'' (Primitive (JStr ''fair'')) Fetch_rejects warmed_CA =
      (Inl Network_error, warmed_CA\<lparr>requests := requests warmed_CA @ [Get_metrics ''CA'']\<rparr>)"
    by blast+
  have call: "generatePlan_call ''CA'' (Primitive (JStr ''fair'')) Fetch_rejects warmed_CA =
      (Returned Undefined, warmed_CA)"
    using generatePlan_without_districts [OF n, of "''CA''" "Primitive (JStr ''fair'')" Fetch_rejects]
    by blast
  from n w main call rej show ?thesis
    unfolding run by (simp add: fallback_shown)
qed

text \<open>
  The older script's \<^verbatim>\<open>generatePlan\<close> from the initial state, where no district
  collection is current: the metrics are requested and the record that comes back is
  shown with the note and the classification of the mode, so the call is not a no-op;
  and a failed request makes the call fail.
\<close>

theorem generatePlan_without_districts_counterexample:
  "currentGeo initial = None \<and> sidebar initial = None \<and> requests initial = [] \<and>
   fst (generatePlan_demo ''CA'' (Primitive (JStr ''fair'')) (arrives fallback_record) initial) = Inr Undefined \<and>
   requests (snd (generatePlan_demo ''CA'' (Primitive (JStr ''fair'')) (arrives fallback_record) initial)) =
     [Get_metrics ''CA''] \<and>
   map_option shown_classification
     (sidebar (snd (generatePlan_demo ''CA'' (Primitive (JStr ''fair'')) (arrives fallback_record) initial))) =
     Some ''FAIR'' \<and>
   map_option shown_notes
     (sidebar (snd (generatePlan_demo ''CA'' (Primitive (JStr ''fair'')) (arrives fallback_record) initial))) =
     Some [''Generated fair plan (demo placeholder).'', ''No metrics''] \<and>
   fst (generatePlan_demo ''CA'' (Primitive (JStr ''fair'')) Fetch_rejects initial) = Inl Network_error"
  by code_simp

section \<open>Two selections in flight\<close>

lemma run_Nil [simp]: "run [] c = c"
  by (simp add: run_def)

lemma run_Cons [simp]: "run (e # evs) c = run evs (handle e c)"
  by (simp add: run_def)

text \<open>\<^verbatim>\<open>selectedState\<close> is written when a selection starts, and by nothing else.\<close>

lemma renderDistricts_frame [simp]:
  "heap (renderDistricts g st s) = heap s"
  "METRICS_CACHE (renderDistricts g st s) = METRICS_CACHE s"
  "currentGeo (renderDistricts g st s) = currentGeo s"
  "selectedState (renderDistricts g st s) = selectedState s"
  "requests (renderDistricts g st s) = requests s"
  "CONGRESS_TOPO (renderDistricts g st s) = CONGRESS_TOPO s"
  by (simp_all add: renderDistricts_def)

lemma loadMetrics_pieces_frame:
  "selectedState (snd (store_fallback c s)) = selectedState s \<and>
   currentGeo (snd (store_fallback c s)) = currentGeo s \<and>
   geoLayer (snd (store_fallback c s)) = geoLayer s \<and>
   CONGRESS_TOPO (snd (store_fallback c s)) = CONGRESS_TOPO s"
  "selectedState (snd (loadMetrics_begin c s)) = selectedState s \<and>
   currentGeo (snd (loadMetrics_begin c s)) = currentGeo s \<and>
   geoLayer (snd (loadMetrics_begin c s)) = geoLayer s \<and>
   CONGRESS_TOPO (snd (loadMetrics_begin c s)) = CONGRESS_TOPO s"
  "selectedState (snd (loadMetrics_fetched c fo s)) = selectedState s \<and>
   currentGeo (snd (loadMetrics_fetched c fo s)) = currentGeo s \<and>
   geoLayer (snd (loadMetrics_fetched c fo s)) = geoLayer s \<and>
   CONGRESS_TOPO (snd (loadMetrics_fetched c fo s)) = CONGRESS_TOPO s"
  "selectedState (snd (loadMetrics_parsed c jo s)) = selectedState s \<and>
   currentGeo (snd (loadMetrics_parsed c jo s)) = currentGeo s \<and>
   geoLayer (snd (loadMetrics_parsed c jo s)) = geoLayer s \<and>
   CONGRESS_TOPO (snd (loadMetrics_parsed c jo s)) = CONGRESS_TOPO s"
  by (simp_all add: store_fallback_eq loadMetrics_begin_def loadMetrics_fetched_def loadMetrics_parsed_def
      new_object_def split: fetch_outcome.splits json_outcome.splits parsed.splits)

lemma settle_metrics_frame:
  assumes "settle_metrics c w x s = Some r"
  shows "selectedState (snd r) = selectedState s \<and> currentGeo (snd r) = currentGeo s \<and>
         geoLayer (snd r) = geoLayer s \<and> CONGRESS_TOPO (snd r) = CONGRESS_TOPO s"
  using assms loadMetrics_pieces_frame(3) [of c _ s] loadMetrics_pieces_frame(4) [of c _ s]
  by (cases "(c, w, x, s)" rule: settle_metrics.cases) auto

lemma refreshState_metrics_frame:
  "selectedState (snd (refreshState_metrics c r)) = selectedState (snd r) \<and>
   currentGeo (snd (refreshState_metrics c r)) = currentGeo (snd r) \<and>
   geoLayer (snd (refreshState_metrics c r)) = geoLayer (snd r) \<and>
   CONGRESS_TOPO (snd (refreshState_metrics c r)) = CONGRESS_TOPO (snd r) \<and>
   past_districts (fst (refreshState_metrics c r))"
  by (cases r) (simp add: refreshState_metrics_def split: step.splits)

lemma loadMetrics_task_frame:
  "snd (loadMetrics_task c r) = snd r \<and> past_districts (fst (loadMetrics_task c r))"
  by (cases r) (simp add: loadMetrics_task_def split: step.splits)

lemma districts_pieces_selectedState:
  "selectedState (snd (districts_now f s)) = selectedState s"
  "selectedState (snd (loadStateDistricts_begin c s)) = selectedState s"
  "selectedState (snd (loadStateDistricts_fetched f fo s)) = selectedState s"
  "selectedState (snd (loadStateDistricts_parsed f jo s)) = selectedState s"
  by (simp_all add: districts_now_def loadStateDistricts_begin_def loadStateDistricts_fetched_def
      loadStateDistricts_parsed_def split: option.splits sum.splits fetch_outcome.splits json_outcome.splits)

lemma refreshState_districts_selectedState:
  "selectedState (snd (refreshState_districts c r)) = selectedState (snd r)"
proof (cases r)
  case (Pair st s)
  show ?thesis
    using refreshState_metrics_frame [of c "loadMetrics_begin c (renderDistricts _ styleDistrictBase (s\<lparr>currentGeo := Some _\<rparr>))"]
      loadMetrics_pieces_frame(2) [of c "renderDistricts _ styleDistrictBase (s\<lparr>currentGeo := Some _\<rparr>)"]
    by (cases st) (simp_all add: Pair refreshState_districts_def)
qed

lemma settle_districts_selectedState:
  assumes "settle_districts w x s = Some r"
  shows "selectedState (snd r) = selectedState s"
  using assms districts_pieces_selectedState(3,4)
  by (cases "(w, x, s)" rule: settle_districts.cases) auto

lemma generatePlan_metrics_selectedState:
  "selectedState (snd (generatePlan_metrics c mode r)) = selectedState (snd r)"
  by (cases r) (simp add: generatePlan_metrics_def showMetrics_def split: step.splits jsval.splits option.splits)

lemma resume_selectedState: "selectedState (snd (resume t x s)) = selectedState s"
proof (cases t)
  case (RefreshState_districts c w)
  then show ?thesis
    using settle_districts_selectedState [of w x s] refreshState_districts_selectedState [of c]
    by (auto simp: resume_def split: option.splits)
next
  case (RefreshState_metrics c w)
  then show ?thesis
    using settle_metrics_frame [of c w x s] refreshState_metrics_frame [of c]
    by (auto simp: resume_def split: option.splits)
next
  case (GeneratePlan_metrics c mode w)
  then show ?thesis
    using settle_metrics_frame [of c w x s] generatePlan_metrics_selectedState [of c mode]
    by (auto simp: resume_def split: option.splits)
next
  case (LoadMetrics_wait c w)
  then show ?thesis
    using settle_metrics_frame [of c w x s] loadMetrics_task_frame [of c]
    by (auto simp: resume_def split: option.splits)
qed (simp_all add: resume_def)

lemma handle_Settle:
  "handle (Settle n x) (s, ts) =
     (if n < length ts then (snd (resume (ts ! n) x s), ts[n := fst (resume (ts ! n) x s)]) else (s, ts))"
  by (simp split: prod.splits)

lemma handle_Select:
  "handle (Select c) (s, ts) = (snd (refreshState c s), ts @ [fst (refreshState c s)])"
  by (simp split: prod.splits)

lemma handle_settlement_selectedState:
  "is_settlement e \<Longrightarrow> selectedState (fst (handle e c)) = selectedState (fst c)"
proof (cases e)
  case (Settle n x)
  obtain s ts where c: "c = (s, ts)" by (cases c)
  show ?thesis
    unfolding Settle c handle_Settle by (simp add: resume_selectedState)
qed simp_all

lemma run_settlements_selectedState:
  "list_all is_settlement evs \<Longrightarrow> selectedState (fst (run evs c)) = selectedState (fst c)"
  by (induction evs arbitrary: c) (simp_all add: handle_settlement_selectedState)

lemma refreshState_selectedState: "selectedState (snd (refreshState c s)) = Some c"
  unfolding refreshState_def refreshState_districts_selectedState districts_pieces_selectedState by simp

lemma select_selectedState: "selectedState (fst (handle (Select c) cfg)) = Some c"
  by (cases cfg) (simp only: handle_Select fst_conv refreshState_selectedState)

text \<open>\<^verbatim>\<open>currentGeo\<close> and the district layer are written when a district load resolves.\<close>

lemma geoLayer_showMetrics [simp]: "geoLayer (showMetrics v s) = geoLayer s"
  by (simp add: showMetrics_def)

lemma resume_past_districts:
  assumes "past_districts t"
  shows "currentGeo (snd (resume t x s)) = currentGeo s \<and> geoLayer (snd (resume t x s)) = geoLayer s \<and>
         CONGRESS_TOPO (snd (resume t x s)) = CONGRESS_TOPO s \<and> past_districts (fst (resume t x s))"
proof (cases t)
  case (RefreshState_metrics c w)
  then show ?thesis
    using settle_metrics_frame [of c w x s] refreshState_metrics_frame [of c]
    by (auto simp: resume_def split: option.splits)
next
  case (LoadMetrics_wait c w)
  then show ?thesis
    using settle_metrics_frame [of c w x s] loadMetrics_task_frame [of c]
    by (auto simp: resume_def split: option.splits)
qed (use assms in \<open>simp_all add: resume_def\<close>)

lemma handle_past_districts:
  assumes "is_settlement e" and "list_all past_districts ts"
  shows "currentGeo (fst (handle e (s, ts))) = currentGeo s \<and> geoLayer (fst (handle e (s, ts))) = geoLayer s \<and>
         CONGRESS_TOPO (fst (handle e (s, ts))) = CONGRESS_TOPO s \<and>
         list_all past_districts (snd (handle e (s, ts)))"
proof (cases e)
  case (Settle n x)
  show ?thesis
  proof (cases "n < length ts")
    case True
    with assms(2) have p: "past_districts (ts ! n)"
      by (simp add: list_all_length)
    from resume_past_districts [OF p, of x s] assms(2) True show ?thesis
      unfolding Settle handle_Settle
      by (auto simp: list_all_length nth_list_update)
  next
    case False
    with assms(2) show ?thesis
      unfolding Settle handle_Settle by simp
  qed
qed (use assms in simp_all)

lemma run_past_districts:
  assumes "list_all is_settlement evs" and "list_all past_districts ts"
  shows "currentGeo (fst (run evs (s, ts))) = currentGeo s \<and> geoLayer (fst (run evs (s, ts))) = geoLayer s"
  using assms
proof (induction evs arbitrary: s ts)
  case Nil
  show ?case by simp
next
  case (Cons e evs)
  from Cons.prems have e: "is_settlement e" and evs: "list_all is_settlement evs"
    by simp_all
  obtain s' ts' where h: "handle e (s, ts) = (s', ts')"
    by (cases "handle e (s, ts)")
  from handle_past_districts [OF e Cons.prems(2), of s] h
  have "currentGeo s' = currentGeo s" "geoLayer s' = geoLayer s" "list_all past_districts ts'"
    by simp_all
  with Cons.IH [OF evs, of ts' s'] h show ?case
    by simp
qed

lemma refreshState_uncached:
  assumes "\<not> truthy_topo (CONGRESS_TOPO s)" and "STATE_FIPS c = Some f"
  shows "refreshState c s =
    (RefreshState_districts c (Districts_fetch f),
     s\<lparr>selectedState := Some c, requests := requests s @ [Get_congress]\<rparr>)"
  using assms STATE_FIPS_nonempty [OF assms(2)]
  by (simp add: refreshState_def loadStateDistricts_begin_def refreshState_districts_def)

lemma resume_districts_fetch:
  "resume (RefreshState_districts c (Districts_fetch f)) (Congress (arrives t)) s =
     (RefreshState_districts c (Districts_json f (Json_resolves (Obj t))), s)"
  by (simp add: resume_def arrives_def loadStateDistricts_fetched_def refreshState_districts_def)

lemma refreshState_districts_Done:
  "currentGeo (snd (refreshState_districts c (Done g, s))) = Some g \<and>
   map_option layer_data (geoLayer (snd (refreshState_districts c (Done g, s)))) = Some (features g) \<and>
   CONGRESS_TOPO (snd (refreshState_districts c (Done g, s))) = CONGRESS_TOPO s \<and>
   past_districts (fst (refreshState_districts c (Done g, s)))"
proof -
  let ?s = "renderDistricts g styleDistrictBase (s\<lparr>currentGeo := Some g\<rparr>)"
  have r: "map_option layer_data (geoLayer ?s) = Some (features g)"
    by (simp add: renderDistricts_def render_layer_def Let_def split: sum.splits)
  have "refreshState_districts c (Done g, s) = refreshState_metrics c (loadMetrics_begin c ?s)"
    by (simp add: refreshState_districts_def)
  then show ?thesis
    using refreshState_metrics_frame [of c "loadMetrics_begin c ?s"] loadMetrics_pieces_frame(2) [of c ?s] r
    by simp
qed

lemma resume_districts_body:
  assumes "pick_object t = Inr (GeometryCollection fs)"
  shows "currentGeo (snd (resume (RefreshState_districts c (Districts_json f (Json_resolves (Obj t)))) Body s)) =
           Some (FeatureCollection (filter (\<lambda>x. feature_state x = f) fs)) \<and>
         map_option layer_data
           (geoLayer (snd (resume (RefreshState_districts c (Districts_json f (Json_resolves (Obj t)))) Body s))) =
           Some (filter (\<lambda>x. feature_state x = f) fs) \<and>
         past_districts (fst (resume (RefreshState_districts c (Districts_json f (Json_resolves (Obj t)))) Body s))"
proof -
  have "resume (RefreshState_districts c (Districts_json f (Json_resolves (Obj t)))) Body s =
      refreshState_districts c
        (Done (FeatureCollection (filter (\<lambda>x. feature_state x = f) fs)), s\<lparr>CONGRESS_TOPO := Some (Obj t)\<rparr>)"
    by (simp add: resume_def loadStateDistricts_parsed_collection [OF assms])
  then show ?thesis
    using refreshState_districts_Done
      [of c "FeatureCollection (filter (\<lambda>x. feature_state x = f) fs)" "s\<lparr>CONGRESS_TOPO := Some (Obj t)\<rparr>"]
    by simp
qed

lemma refreshState_cached:
  assumes "CONGRESS_TOPO s = Some (Obj t)" and "pick_object t = Inr (GeometryCollection fs)"
    and "STATE_FIPS c = Some f"
  shows "currentGeo (snd (refreshState c s)) = Some (FeatureCollection (filter (\<lambda>x. feature_state x = f) fs)) \<and>
         map_option layer_data (geoLayer (snd (refreshState c s))) = Some (filter (\<lambda>x. feature_state x = f) fs) \<and>
         CONGRESS_TOPO (snd (refreshState c s)) = Some (Obj t) \<and>
         past_districts (fst (refreshState c s))"
proof -
  have "loadStateDistricts_begin c (s\<lparr>selectedState := Some c\<rparr>) =
      (Done (FeatureCollection (filter (\<lambda>x. feature_state x = f) fs)), s\<lparr>selectedState := Some c\<rparr>)"
    using loadStateDistricts_begin_cached [OF assms(3) _ assms(2), of "s\<lparr>selectedState := Some c\<rparr>"] assms(1)
    by simp
  then show ?thesis
    using refreshState_districts_Done
      [of c "FeatureCollection (filter (\<lambda>x. feature_state x = f) fs)" "s\<lparr>selectedState := Some c\<rparr>"] assms(1)
    by (simp add: refreshState_def)
qed

lemma race_stale:
  assumes fa: "STATE_FIPS older = Some fa" and fb: "STATE_FIPS newer = Some fb"
    and pa: "pick_object ta = Inr (GeometryCollection fsa)" and pb: "pick_object tb = Inr (GeometryCollection fsb)"
    and evs: "list_all is_settlement evs" and cold: "\<not> truthy_topo (CONGRESS_TOPO s)"
  shows "currentGeo (fst (run evs (run [Select older, Select newer,
            Settle 1 (Congress (arrives tb)), Settle 1 Body,
            Settle 0 (Congress (arrives ta)), Settle 0 Body] (s, [])))) =
          Some (FeatureCollection (filter (\<lambda>x. feature_state x = fa) fsa)) \<and>
         map_option layer_data (geoLayer (fst (run evs (run [Select older, Select newer,
            Settle 1 (Congress (arrives tb)), Settle 1 Body,
            Settle 0 (Congress (arrives ta)), Settle 0 Body] (s, []))))) =
          Some (filter (\<lambda>x. feature_state x = fa) fsa)"
proof -
  let ?s1 = "s\<lparr>selectedState := Some older, requests := requests s @ [Get_congress]\<rparr>"
  let ?s2 = "?s1\<lparr>selectedState := Some newer, requests := requests ?s1 @ [Get_congress]\<rparr>"
  let ?jb = "RefreshState_districts newer (Districts_json fb (Json_resolves (Obj tb)))"
  let ?ja = "RefreshState_districts older (Districts_json fa (Json_resolves (Obj ta)))"
  let ?rb = "resume ?jb Body ?s2"
  let ?ra = "resume ?ja Body (snd ?rb)"
  have cold1: "\<not> truthy_topo (CONGRESS_TOPO ?s1)"
    using cold by simp
  have prefix: "run [Select older, Select newer,
            Settle 1 (Congress (arrives tb)), Settle 1 Body,
            Settle 0 (Congress (arrives ta)), Settle 0 Body] (s, []) = (snd ?ra, [fst ?ra, fst ?rb])"
    by (simp add: handle_Select handle_Settle refreshState_uncached [OF cold fa]
        refreshState_uncached [OF cold1 fb] resume_districts_fetch del: handle.simps)
  have past: "list_all past_districts [fst ?ra, fst ?rb]"
    using resume_districts_body [OF pa, of older fa "snd ?rb"] resume_districts_body [OF pb, of newer fb ?s2]
    by simp
  show ?thesis
    unfolding prefix
    using run_past_districts [OF evs past, of "snd ?ra"] resume_districts_body [OF pa, of older fa "snd ?rb"]
    by simp
qed

lemma race_in_order:
  assumes fa: "STATE_FIPS older = Some fa" and fb: "STATE_FIPS newer = Some fb"
    and pa: "pick_object ta = Inr (GeometryCollection fsa)" and pb: "pick_object tb = Inr (GeometryCollection fsb)"
    and evs: "list_all is_settlement evs" and cold: "\<not> truthy_topo (CONGRESS_TOPO s)"
  shows "currentGeo (fst (run evs (run [Select older, Select newer,
            Settle 0 (Congress (arrives ta)), Settle 0 Body,
            Settle 1 (Congress (arrives tb)), Settle 1 Body] (s, [])))) =
          Some (FeatureCollection (filter (\<lambda>x. feature_state x = fb) fsb)) \<and>
         map_option layer_data (geoLayer (fst (run evs (run [Select older, Select newer,
            Settle 0 (Congress (arrives ta)), Settle 0 Body,
            Settle 1 (Congress (arrives tb)), Settle 1 Body] (s, []))))) =
          Some (filter (\<lambda>x. feature_state x = fb) fsb)"
proof -
  let ?s1 = "s\<lparr>selectedState := Some older, requests := requests s @ [Get_congress]\<rparr>"
  let ?s2 = "?s1\<lparr>selectedState := Some newer, requests := requests ?s1 @ [Get_congress]\<rparr>"
  let ?jb = "RefreshState_districts newer (Districts_json fb (Json_resolves (Obj tb)))"
  let ?ja = "RefreshState_districts older (Districts_json fa (Json_resolves (Obj ta)))"
  let ?ra = "resume ?ja Body ?s2"
  let ?rb = "resume ?jb Body (snd ?ra)"
  have cold1: "\<not> truthy_topo (CONGRESS_TOPO ?s1)"
    using cold by simp
  have prefix: "run [Select older, Select newer,
            Settle 0 (Congress (arrives ta)), Settle 0 Body,
            Settle 1 (Congress (arrives tb)), Settle 1 Body] (s, []) = (snd ?rb, [fst ?ra, fst ?rb])"
    by (simp add: handle_Select handle_Settle refreshState_uncached [OF cold fa]
        refreshState_uncached [OF cold1 fb] resume_districts_fetch del: handle.simps)
  have past: "list_all past_districts [fst ?ra, fst ?rb]"
    using resume_districts_body [OF pb, of newer fb "snd ?ra"] resume_districts_body [OF pa, of older fa ?s2]
    by simp
  show ?thesis
    unfolding prefix
    using run_past_districts [OF evs past, of "snd ?rb"] resume_districts_body [OF pb, of newer fb "snd ?ra"]
    by simp
qed

lemma race_cached:
  assumes fa: "STATE_FIPS older = Some fa" and fb: "STATE_FIPS newer = Some fb"
    and pb: "pick_object tb = Inr (GeometryCollection fsb)"
    and evs: "list_all is_settlement evs" and warm: "CONGRESS_TOPO s = Some (Obj tb)"
  shows "currentGeo (fst (run evs (run [Select older, Select newer] (s, [])))) =
          Some (FeatureCollection (filter (\<lambda>x. feature_state x = fb) fsb)) \<and>
         map_option layer_data (geoLayer (fst (run evs (run [Select older, Select newer] (s, []))))) =
          Some (filter (\<lambda>x. feature_state x = fb) fsb)"
proof -
  let ?ra = "refreshState older s"
  let ?rb = "refreshState newer (snd ?ra)"
  have prefix: "run [Select older, Select newer] (s, []) = (snd ?rb, [fst ?ra, fst ?rb])"
    by (simp add: handle_Select del: handle.simps)
  note a = refreshState_cached [OF warm pb fa]
  then have warm1: "CONGRESS_TOPO (snd ?ra) = Some (Obj tb)"
    by simp
  note b = refreshState_cached [OF warm1 pb fb]
  from a b have past: "list_all past_districts [fst ?ra, fst ?rb]"
    by simp
  show ?thesis
    unfolding prefix using run_past_districts [OF evs past, of "snd ?rb"] b by simp
qed

lemma race_selectedState:
  assumes "list_all is_settlement evs"
  shows "selectedState (fst (run evs (run [Select older, Select newer] cfg))) = Some newer"
  using run_settlements_selectedState [OF assms, of "run [Select older, Select newer] cfg"]
    select_selectedState [of newer "handle (Select older) cfg"]
  by simp

text \<open>
  C1. Two selections, the older and then the newer, followed by any settlements of the
  pending promises. \<^verbatim>\<open>selectedState\<close> is the newer code throughout. The district collection
  that is current and rendered is the one of the load that resolved last, with no regard
  to \<^verbatim>\<open>selectedState\<close>: it is the newer state's when the topology was already cached at
  the selections, and, when both selections had to request it, when the newer request is
  answered last; it is the older state's when the older request is answered last. In
  general, when the load of the older request resolves in a state whose \<^verbatim>\<open>selectedState\<close>
  is the newer code, the older state's districts become current all the same.
\<close>

theorem refreshState_race:
  assumes "STATE_FIPS older = Some fa" and "STATE_FIPS newer = Some fb"
    and "pick_object ta = Inr (GeometryCollection fsa)" and "pick_object tb = Inr (GeometryCollection fsb)"
    and "list_all is_settlement evs"
  shows "selectedState (fst (run evs (run [Select older, Select newer] (s, [])))) = Some newer \<and>
    (CONGRESS_TOPO s = Some (Obj tb) \<longrightarrow>
       currentGeo (fst (run evs (run [Select older, Select newer] (s, [])))) =
         Some (FeatureCollection (filter (\<lambda>f. feature_state f = fb) fsb)) \<and>
       map_option layer_data (geoLayer (fst (run evs (run [Select older, Select newer] (s, []))))) =
         Some (filter (\<lambda>f. feature_state f = fb) fsb)) \<and>
    (\<not> truthy_topo (CONGRESS_TOPO s) \<longrightarrow>
       currentGeo (fst (run evs (run [Select older, Select newer,
            Settle 0 (Congress (arrives ta)), Settle 0 Body,
            Settle 1 (Congress (arrives tb)), Settle 1 Body] (s, [])))) =
         Some (FeatureCollection (filter (\<lambda>f. feature_state f = fb) fsb)) \<and>
       map_option layer_data (geoLayer (fst (run evs (run [Select older, Select newer,
            Settle 0 (Congress (arrives ta)), Settle 0 Body,
            Settle 1 (Congress (arrives tb)), Settle 1 Body] (s, []))))) =
         Some (filter (\<lambda>f. feature_state f = fb) fsb)) \<and>
    (\<not> truthy_topo (CONGRESS_TOPO s) \<longrightarrow>
       currentGeo (fst (run evs (run [Select older, Select newer,
            Settle 1 (Congress (arrives tb)), Settle 1 Body,
            Settle 0 (Congress (arrives ta)), Settle 0 Body] (s, [])))) =
         Some (FeatureCollection (filter (\<lambda>f. feature_state f = fa) fsa)) \<and>
       map_option layer_data (geoLayer (fst (run evs (run [Select older, Select newer,
            Settle 1 (Congress (arrives tb)), Settle 1 Body,
            Settle 0 (Congress (arrives ta)), Settle 0 Body] (s, []))))) =
         Some (filter (\<lambda>f. feature_state f = fa) fsa)) \<and>
    (selectedState s = Some newer \<longrightarrow>
       selectedState (snd (resume (RefreshState_districts older (Districts_json fa (Json_resolves (Obj ta)))) Body s)) =
         Some newer \<and>
       currentGeo (snd (resume (RefreshState_districts older (Districts_json fa (Json_resolves (Obj ta)))) Body s)) =
         Some (FeatureCollection (filter (\<lambda>f. feature_state f = fa) fsa)))"
  using race_selectedState [OF assms(5), of older newer "(s, [])"]
    race_cached [OF assms(1,2,4,5), of s]
    race_in_order [OF assms, of s]
    race_stale [OF assms, of s]
    resume_districts_body [OF assms(3), of older fa s]
    resume_selectedState [of "RefreshState_districts older (Districts_json fa (Json_resolves (Obj ta)))" Body s]
  by simp

lemma two_states_pick: "pick_object two_states = Inr (GeometryCollection [ca_district, wy_district])"
  by (simp add: pick_object_def two_states_def js_object_def)

lemma district_states: "feature_state ca_district = ''06''" "feature_state wy_district = ''56''"
  by (simp_all add: feature_state_def ca_district_def wy_district_def js_object_def or_else_def padStart2_def)

theorem refreshState_race_witness:
  "selectedState (fst (run stale_schedule (initial, []))) = Some ''CA'' \<and>
   currentGeo (fst (run stale_schedule (initial, []))) = Some (FeatureCollection [wy_district]) \<and>
   map_option layer_data (geoLayer (fst (run stale_schedule (initial, [])))) = Some [wy_district]"
proof -
  have evs: "list_all is_settlement [Settle 1 (Metrics Fetch_rejects), Settle 0 (Metrics Fetch_rejects)]"
    by simp
  have evs2: "list_all is_settlement [Settle 1 (Congress (arrives two_states)), Settle 1 Body,
     Settle 0 (Congress (arrives two_states)), Settle 0 Body,
     Settle 1 (Metrics Fetch_rejects), Settle 0 (Metrics Fetch_rejects)]"
    by simp
  have cold: "\<not> truthy_topo (CONGRESS_TOPO initial)"
    by (simp add: initial_def truthy_topo_def)
  have split1: "run stale_schedule (initial, []) =
     run [Settle 1 (Metrics Fetch_rejects), Settle 0 (Metrics Fetch_rejects)]
       (run [Select ''WY'', Select ''CA'',
             Settle 1 (Congress (arrives two_states)), Settle 1 Body,
             Settle 0 (Congress (arrives two_states)), Settle 0 Body] (initial, []))"
    by (simp add: stale_schedule_def del: handle.simps)
  have split2: "run stale_schedule (initial, []) =
     run [Settle 1 (Congress (arrives two_states)), Settle 1 Body,
          Settle 0 (Congress (arrives two_states)), Settle 0 Body,
          Settle 1 (Metrics Fetch_rejects), Settle 0 (Metrics Fetch_rejects)]
       (run [Select ''WY'', Select ''CA''] (initial, []))"
    by (simp add: stale_schedule_def del: handle.simps)
  from refreshState_race [OF STATE_FIPS_WY STATE_FIPS_CA two_states_pick two_states_pick evs, of initial] cold
  have geo: "currentGeo (fst (run stale_schedule (initial, []))) = Some (FeatureCollection [wy_district]) \<and>
     map_option layer_data (geoLayer (fst (run stale_schedule (initial, [])))) = Some [wy_district]"
    unfolding split1 by (simp add: district_states del: run_Cons)
  from refreshState_race [OF STATE_FIPS_WY STATE_FIPS_CA two_states_pick two_states_pick evs2, of initial]
  have sel: "selectedState (fst (run stale_schedule (initial, []))) = Some ''CA''"
    unfolding split2 by blast
  from geo sel show ?thesis
    by simp
qed

text \<open>
  The selections of \<^verbatim>\<open>WY\<close> and then \<^verbatim>\<open>CA\<close> from the initial state, the topology request
  of \<^verbatim>\<open>WY\<close> answered last: both calls have returned, \<^verbatim>\<open>selectedState\<close> is \<^verbatim>\<open>CA\<close> and the
  district shown is the one of Wyoming.
\<close>

theorem refreshState_race_counterexample:
  "snd (run stale_schedule (initial, [])) = [Returned Undefined, Returned Undefined] \<and>
   selectedState (fst (run stale_schedule (initial, []))) = Some ''CA'' \<and>
   currentGeo (fst (run stale_schedule (initial, []))) = Some (FeatureCollection [wy_district]) \<and>
   map_option layer_data (geoLayer (fst (run stale_schedule (initial, [])))) = Some [wy_district] \<and>
   feature_state wy_district = ''56'' \<and> feature_state ca_district = ''06'' \<and>
   STATE_FIPS ''CA'' = Some ''06'' \<and> STATE_FIPS ''WY'' = Some ''56''"
  by code_simp

end
